theory Spec2Isabelle
  imports Main
begin

section \<open>Data model\<close>

text \<open>
  Modelled from the spec: \<^verbatim>\<open>EDirection\<close>, declared in
  \<^verbatim>\<open>Dungeon/Enums/Direction.h\<close>, which is not among the sources. The specification
  has the enumeration North, South, East, West, and \<^verbatim>\<open>ADungeonRoom::GetWall\<close>
  switches on exactly these enumerators; its \<^verbatim>\<open>default\<close> branch (an assertion) is
  for values outside the enumeration and has no counterpart for a value of this datatype.
\<close>

datatype EDirection = North | South | East | West

text \<open>
  A \<^verbatim>\<open>UStaticMesh*\<close> is used by the rooms only as an identity: it is stored in a
  segment, and compared by \<^verbatim>\<open>TArray::Contains\<close>. It is modelled by its address;
  \<^verbatim>\<open>nullptr\<close> is the address 0 and is a value like any other for these operations.
\<close>

type_synonym UStaticMesh = nat

text \<open>
  Modelled from the spec: \<^verbatim>\<open>FNumberOfTiles\<close>, declared in
  \<^verbatim>\<open>Dungeon/SizeTypes/NumberOfTiles.h\<close>, which is not among the sources: an integer
  number of tiles. The sources pass it where an \<^verbatim>\<open>int32\<close> is expected, compare it
  with 0 and with other tile counts, and store it; none of this overflows, so tile
  counts and \<^verbatim>\<open>int32\<close> values are unbounded integers here. A default-constructed
  \<^verbatim>\<open>FNumberOfTiles\<close> (what \<^verbatim>\<open>TMap::FindOrAdd\<close> stores for a new key) is 0.
\<close>

type_synonym FNumberOfTiles = int

text \<open>
  Modelled from the spec: \<^verbatim>\<open>EDungeonTheme\<close>, declared in
  \<^verbatim>\<open>Dungeon/Enums/DungeonTheme.h\<close>, which is not among the sources: a categorical
  tag, of which the database uses the identity only. A theme is represented by the
  underlying value of its enumerator.
\<close>

type_synonym EDungeonTheme = nat

text \<open>
  An \<^verbatim>\<open>FSoftObjectPath\<close> is the engine's path of an asset; the database stores and
  returns it and never looks into it.
\<close>

type_synonym FSoftObjectPath = string

text \<open>
  Every \<^verbatim>\<open>checkf\<close> of the sources is a branch returning one of these values, named
  after the condition the assertion message reports. The three array and pointer errors
  are the engine's own failures: \<^verbatim>\<open>TArray::operator[]\<close> checks its index, and
  a call through a null component pointer does not return.
\<close>

datatype error =
    MissingDoorMeshes
  | MissingWallMeshes
  | InvalidLocation
  | DoorAlreadyPresent
  | NoDoorPresent
  | OutOfRange
  | NullSegment
  | ArrayIndexOutOfBounds
  | NotAStaticMesh
  | MissingIndexTag
  | InvalidIndexTag
  | EmptyCatalog
  | InvalidSpecification
  | SpecificationNotFound
  | ThemeNotFound

text \<open>
  \<^verbatim>\<open>USegmentedWall::m_SegmentMeshes\<close> is a \<^verbatim>\<open>TArray<UStaticMeshComponent*>\<close>. Every
  non-null entry points to a child component of the wall that no other entry points to
  (see \<^verbatim>\<open>InitializeSegmentMeshes\<close>), so an entry is modelled by the static mesh its
  component currently shows: \<open>Some m\<close>, or \<open>None\<close> for a null pointer.
\<close>

record USegmentedWall =
  m_SegmentMeshes :: "UStaticMesh option list"

record FWallLocation =
  WallDirection :: EDirection
  SegmentIndex :: FNumberOfTiles

record ADungeonRoom =
  m_DoorMeshes :: "UStaticMesh list"
  m_WallMeshes :: "UStaticMesh list"
  m_NorthWall :: USegmentedWall
  m_WestWall :: USegmentedWall
  m_EastWall :: USegmentedWall
  m_SouthWall :: USegmentedWall
  m_Theme :: EDungeonTheme
  m_Width :: int
  m_Length :: int

section \<open>SegmentedWall.cpp\<close>

definition USegmentedWall_ctor :: USegmentedWall where
  "USegmentedWall_ctor = \<lparr>m_SegmentMeshes = []\<rparr>"

text \<open>\<^verbatim>\<open>TArray::IsValidIndex\<close>: \<^verbatim>\<open>Index >= 0 && Index < ArrayNum\<close>.\<close>

definition IsValidSegmentIndex :: "USegmentedWall \<Rightarrow> int \<Rightarrow> bool" where
  "IsValidSegmentIndex wall i \<longleftrightarrow> 0 \<le> i \<and> i < int (length (m_SegmentMeshes wall))"

definition GetSegment :: "USegmentedWall \<Rightarrow> int \<Rightarrow> error + UStaticMesh option" where
  "GetSegment wall i =
     (if IsValidSegmentIndex wall i then Inr (m_SegmentMeshes wall ! nat i)
      else Inl OutOfRange)"

text \<open>
  A child component attached to a wall in the blueprint. \<^verbatim>\<open>InitializeSegmentMeshes\<close>
  reads three things of it: whether it casts to \<^verbatim>\<open>UStaticMeshComponent\<close>, its
  component tags, and (later, through the stored pointer) its static mesh. Of a tag only
  the results of the two engine string functions applied to it are used:
  \<^verbatim>\<open>FString::IsNumeric\<close> and \<^verbatim>\<open>FCString::Atoi\<close>.
\<close>

record FName =
  IsNumeric :: bool
  Atoi :: int

record USceneComponent =
  IsStaticMeshComponent :: bool
  ComponentTags :: "FName list"
  StaticMesh :: UStaticMesh

definition GetIndexOfSegment :: "USceneComponent \<Rightarrow> error + int" where
  "GetIndexOfSegment Segment =
     (case ComponentTags Segment of
        [] \<Rightarrow> Inl MissingIndexTag
      | TagValue # _ \<Rightarrow>
          if IsNumeric TagValue then Inr (Atoi TagValue) else Inl InvalidIndexTag)"

text \<open>\<^verbatim>\<open>TArray::SetNum\<close>: shrink, or grow with null pointers.\<close>

definition SetNum :: "nat \<Rightarrow> UStaticMesh option list \<Rightarrow> UStaticMesh option list" where
  "SetNum n xs = take n xs @ replicate (n - length xs) None"

text \<open>The loop of \<^verbatim>\<open>InitializeSegmentMeshes\<close> over the attached children.\<close>

fun AssignSegments ::
  "USceneComponent list \<Rightarrow> UStaticMesh option list \<Rightarrow> error + UStaticMesh option list" where
  "AssignSegments [] segs = Inr segs"
| "AssignSegments (WallSegment # rest) segs =
     (if \<not> IsStaticMeshComponent WallSegment then Inl NotAStaticMesh
      else case GetIndexOfSegment WallSegment of
        Inl e \<Rightarrow> Inl e
      | Inr Index \<Rightarrow>
          if 0 \<le> Index \<and> Index < int (length segs)
          then AssignSegments rest (segs[nat Index := Some (StaticMesh WallSegment)])
          else Inl ArrayIndexOutOfBounds)"

definition InitializeSegmentMeshes ::
  "USceneComponent list \<Rightarrow> USegmentedWall \<Rightarrow> error + USegmentedWall" where
  "InitializeSegmentMeshes WallSegments wall =
     (case AssignSegments WallSegments (SetNum (length WallSegments) (m_SegmentMeshes wall)) of
        Inl e \<Rightarrow> Inl e
      | Inr segs \<Rightarrow> Inr (wall\<lparr>m_SegmentMeshes := segs\<rparr>))"

text \<open>
  \<^verbatim>\<open>InitializeComponent\<close>: the segment array is filled only in a game world. Of the
  world only \<^verbatim>\<open>IsGameWorld()\<close> is read; the second argument is the list of attached
  children (\<^verbatim>\<open>GetAttachChildren()\<close>).
\<close>

record UWorld =
  IsGameWorld :: bool

definition InitializeComponent ::
  "UWorld \<Rightarrow> USceneComponent list \<Rightarrow> USegmentedWall \<Rightarrow> error + USegmentedWall" where
  "InitializeComponent World WallSegments wall =
     (if IsGameWorld World then InitializeSegmentMeshes WallSegments wall else Inr wall)"

section \<open>DungeonRoom.cpp\<close>

definition CreateWall :: "string \<Rightarrow> USegmentedWall" where
  "CreateWall Name = USegmentedWall_ctor"

text \<open>
  The constructor creates the four walls; the mesh arrays are empty and the searchable
  fields are zero until the blueprint's values are applied.
\<close>

definition ADungeonRoom_ctor :: ADungeonRoom where
  "ADungeonRoom_ctor =
     \<lparr>m_DoorMeshes = [], m_WallMeshes = [],
      m_NorthWall = CreateWall ''NorthWall'',
      m_WestWall = CreateWall ''WestWall'',
      m_EastWall = CreateWall ''EastWall'',
      m_SouthWall = CreateWall ''SouthWall'',
      m_Theme = 0, m_Width = 0, m_Length = 0\<rparr>"

fun GetWall :: "ADungeonRoom \<Rightarrow> EDirection \<Rightarrow> USegmentedWall" where
  "GetWall room North = m_NorthWall room"
| "GetWall room South = m_SouthWall room"
| "GetWall room East = m_EastWall room"
| "GetWall room West = m_WestWall room"

text \<open>
  Writing through the pointer \<^verbatim>\<open>GetWall\<close> returns changes the wall the room owns:
  the model stores the changed wall back.
\<close>

fun PutWall :: "ADungeonRoom \<Rightarrow> EDirection \<Rightarrow> USegmentedWall \<Rightarrow> ADungeonRoom" where
  "PutWall room North w = room\<lparr>m_NorthWall := w\<rparr>"
| "PutWall room South w = room\<lparr>m_SouthWall := w\<rparr>"
| "PutWall room East w = room\<lparr>m_EastWall := w\<rparr>"
| "PutWall room West w = room\<lparr>m_WestWall := w\<rparr>"

definition SetStaticMesh ::
  "ADungeonRoom \<Rightarrow> FWallLocation \<Rightarrow> UStaticMesh \<Rightarrow> error + ADungeonRoom" where
  "SetStaticMesh room Location NewMesh =
     (let WallBeingUpdated = GetWall room (WallDirection Location) in
      case GetSegment WallBeingUpdated (SegmentIndex Location) of
        Inl e \<Rightarrow> Inl e
      | Inr None \<Rightarrow> Inl NullSegment
      | Inr (Some _) \<Rightarrow>
          Inr (PutWall room (WallDirection Location)
                 (WallBeingUpdated\<lparr>m_SegmentMeshes :=
                    (m_SegmentMeshes WallBeingUpdated)
                      [nat (SegmentIndex Location) := Some NewMesh]\<rparr>)))"

definition IsValidWallLocation :: "ADungeonRoom \<Rightarrow> FWallLocation \<Rightarrow> bool" where
  "IsValidWallLocation room Location =
     IsValidSegmentIndex (GetWall room (WallDirection Location)) (SegmentIndex Location)"

text \<open>
  \<^verbatim>\<open>FMath::RandRange(Min, Max)\<close> is the engine's: it returns
  \<^verbatim>\<open>Min + RandHelper(Max - Min + 1)\<close>, where \<^verbatim>\<open>RandHelper(A)\<close> is a pseudo-random
  integer of \<open>[0, A - 1]\<close> when \<open>A > 0\<close> and 0 otherwise. The generator's raw output
  is the parameter \<open>raw\<close>, reduced to the range; every value of the range is the result
  for some \<open>raw\<close>.
\<close>

definition RandHelper :: "int \<Rightarrow> nat \<Rightarrow> int" where
  "RandHelper A raw = (if A > 0 then int raw mod A else 0)"

definition RandRange :: "int \<Rightarrow> int \<Rightarrow> nat \<Rightarrow> int" where
  "RandRange lo hi raw = lo + RandHelper (hi - lo + 1) raw"

definition GetRandomMesh :: "UStaticMesh list \<Rightarrow> nat \<Rightarrow> error + UStaticMesh" where
  "GetRandomMesh Meshes raw =
     (let i = RandRange 0 (int (length Meshes) - 1) raw in
      if 0 \<le> i \<and> i < int (length Meshes) then Inr (Meshes ! nat i)
      else Inl ArrayIndexOutOfBounds)"

definition HasDoorAtLocation :: "ADungeonRoom \<Rightarrow> FWallLocation \<Rightarrow> error + bool" where
  "HasDoorAtLocation room Location =
     (if \<not> IsValidWallLocation room Location then Inl InvalidLocation
      else case GetSegment (GetWall room (WallDirection Location)) (SegmentIndex Location) of
        Inl e \<Rightarrow> Inl e
      | Inr None \<Rightarrow> Inl NullSegment
      | Inr (Some MeshAtLocation) \<Rightarrow> Inr (MeshAtLocation \<in> set (m_DoorMeshes room)))"

definition AddDoor :: "ADungeonRoom \<Rightarrow> FWallLocation \<Rightarrow> nat \<Rightarrow> error + ADungeonRoom" where
  "AddDoor room Location raw =
     (if \<not> length (m_DoorMeshes room) > 0 then Inl MissingDoorMeshes
      else if \<not> IsValidWallLocation room Location then Inl InvalidLocation
      else case HasDoorAtLocation room Location of
        Inl e \<Rightarrow> Inl e
      | Inr True \<Rightarrow> Inl DoorAlreadyPresent
      | Inr False \<Rightarrow>
          (case GetRandomMesh (m_DoorMeshes room) raw of
             Inl e \<Rightarrow> Inl e
           | Inr NewMesh \<Rightarrow> SetStaticMesh room Location NewMesh))"

definition RemoveDoor :: "ADungeonRoom \<Rightarrow> FWallLocation \<Rightarrow> nat \<Rightarrow> error + ADungeonRoom" where
  "RemoveDoor room Location raw =
     (if \<not> length (m_WallMeshes room) > 0 then Inl MissingWallMeshes
      else if \<not> IsValidWallLocation room Location then Inl InvalidLocation
      else case HasDoorAtLocation room Location of
        Inl e \<Rightarrow> Inl e
      | Inr False \<Rightarrow> Inl NoDoorPresent
      | Inr True \<Rightarrow>
          (case GetRandomMesh (m_WallMeshes room) raw of
             Inl e \<Rightarrow> Inl e
           | Inr NewMesh \<Rightarrow> SetStaticMesh room Location NewMesh))"

definition PostActorCreated :: "ADungeonRoom \<Rightarrow> error + unit" where
  "PostActorCreated room =
     (if \<not> length (m_DoorMeshes room) > 0 then Inl MissingDoorMeshes
      else if \<not> length (m_WallMeshes room) > 0 then Inl MissingWallMeshes
      else Inr ())"

text \<open>
  The class a room is spawned from, a blueprint class: the values of the editable
  properties and, for each wall, the components the blueprint attaches to it.
  \<^verbatim>\<open>FBaseBlueprintAssetAnalyzer::GetSpawnableClass\<close>, which resolves the loaded asset
  to this class, is not among the sources: the loaded asset of a spawn request is taken
  to be the class itself.
\<close>

record UClass =
  Default_DoorMeshes :: "UStaticMesh list"
  Default_WallMeshes :: "UStaticMesh list"
  Default_Theme :: EDungeonTheme
  Default_Width :: int
  Default_Length :: int
  NorthWall_Children :: "USceneComponent list"
  SouthWall_Children :: "USceneComponent list"
  WestWall_Children :: "USceneComponent list"
  EastWall_Children :: "USceneComponent list"

text \<open>
  \<^verbatim>\<open>UWorld::SpawnActor\<close> is the engine's. What it runs of the sources, in this order:
  the constructor, then (the blueprint's property values applied)
  \<^verbatim>\<open>PostActorCreated\<close>, then \<^verbatim>\<open>InitializeComponent\<close> of each wall on the children
  the blueprint attaches to it. The position of the actor in the scene
  (\<^verbatim>\<open>SpawnInfo.RoomLocation\<close>) is state of the engine and is left out.
\<close>

definition SpawnActor :: "UWorld \<Rightarrow> UClass \<Rightarrow> error + ADungeonRoom" where
  "SpawnActor World SpawnableClass =
     (let room = ADungeonRoom_ctor
            \<lparr>m_DoorMeshes := Default_DoorMeshes SpawnableClass,
             m_WallMeshes := Default_WallMeshes SpawnableClass,
             m_Theme := Default_Theme SpawnableClass,
             m_Width := Default_Width SpawnableClass,
             m_Length := Default_Length SpawnableClass\<rparr> in
      case PostActorCreated room of
        Inl e \<Rightarrow> Inl e
      | Inr _ \<Rightarrow>
      (case InitializeComponent World (NorthWall_Children SpawnableClass) (m_NorthWall room) of
        Inl e \<Rightarrow> Inl e
      | Inr n \<Rightarrow>
      (case InitializeComponent World (SouthWall_Children SpawnableClass) (m_SouthWall room) of
        Inl e \<Rightarrow> Inl e
      | Inr s \<Rightarrow>
      (case InitializeComponent World (WestWall_Children SpawnableClass) (m_WestWall room) of
        Inl e \<Rightarrow> Inl e
      | Inr w \<Rightarrow>
      (case InitializeComponent World (EastWall_Children SpawnableClass) (m_EastWall room) of
        Inl e \<Rightarrow> Inl e
      | Inr e \<Rightarrow>
          Inr (room\<lparr>m_NorthWall := n, m_SouthWall := s,
                     m_WestWall := w, m_EastWall := e\<rparr>))))))"

record FSpawnInfo =
  LoadedAsset :: UClass
  DoorLocations :: "FWallLocation list"

text \<open>
  The loop of \<^verbatim>\<open>Spawn\<close>. Each \<^verbatim>\<open>AddDoor\<close> draws one random number: \<open>rnd\<close> is
  the sequence of the generator's raw outputs from here on.
\<close>

fun AddDoors :: "ADungeonRoom \<Rightarrow> FWallLocation list \<Rightarrow> (nat \<Rightarrow> nat) \<Rightarrow> error + ADungeonRoom" where
  "AddDoors SpawnedRoom [] rnd = Inr SpawnedRoom"
| "AddDoors SpawnedRoom (Location # rest) rnd =
     (case AddDoor SpawnedRoom Location (rnd 0) of
        Inl e \<Rightarrow> Inl e
      | Inr room' \<Rightarrow> AddDoors room' rest (\<lambda>k. rnd (Suc k)))"

definition Spawn :: "FSpawnInfo \<Rightarrow> UWorld \<Rightarrow> (nat \<Rightarrow> nat) \<Rightarrow> error + ADungeonRoom" where
  "Spawn SpawnInfo World rnd =
     (case SpawnActor World (LoadedAsset SpawnInfo) of
        Inl e \<Rightarrow> Inl e
      | Inr SpawnedRoom \<Rightarrow> AddDoors SpawnedRoom (DoorLocations SpawnInfo) rnd)"

section \<open>DungeonRoomDatabase.cpp\<close>

text \<open>
  Modelled from the spec: \<^verbatim>\<open>FDungeonRoomSpecs\<close>, declared in
  \<^verbatim>\<open>Dungeon/Structs/DungeonRoomSpecs.h\<close>, which is not among the sources. The fields
  are the ones the database reads (\<^verbatim>\<open>Theme\<close>, \<^verbatim>\<open>Dimensions.Width\<close>,
  \<^verbatim>\<open>Dimensions.Length\<close>); as keys of a \<^verbatim>\<open>TMap\<close> two specs are equal exactly when
  the three fields are, as the specification has it.
\<close>

record FRoomDimensions =
  Width :: FNumberOfTiles
  Length :: FNumberOfTiles

record FDungeonRoomSpecs =
  Theme :: EDungeonTheme
  Dimensions :: FRoomDimensions

text \<open>
  Modelled from the spec: \<^verbatim>\<open>FDungeonRoomAssetAnalyzer\<close>
  (\<^verbatim>\<open>System/DungeonRoomAssetAnalyzer.h\<close>) is not among the sources. Of an asset
  the database reads what \<^verbatim>\<open>GetSoftObjectPath\<close> and \<^verbatim>\<open>GetRoomSpecs\<close> return for
  it, the locator and the specification of a template record: an asset is this pair.
\<close>

record FAssetData =
  GetSoftObjectPath :: FSoftObjectPath
  GetRoomSpecs :: FDungeonRoomSpecs

record FDungeonRoomDatabase =
  m_PathsByRoomSpecs :: "FDungeonRoomSpecs \<rightharpoonup> FSoftObjectPath list"
  m_MaxWidthByTheme :: "EDungeonTheme \<rightharpoonup> FNumberOfTiles"
  m_MaxLengthByTheme :: "EDungeonTheme \<rightharpoonup> FNumberOfTiles"

text \<open>
  \<^verbatim>\<open>TMap::FindOrAdd\<close>: the value stored under the key, after storing the default
  value when the key was absent. The model returns the map and the value referred to;
  an assignment through the reference is an update of the map at the key.
\<close>

definition FindOrAdd :: "('k \<rightharpoonup> 'v) \<Rightarrow> 'k \<Rightarrow> 'v \<Rightarrow> ('k \<rightharpoonup> 'v) \<times> 'v" where
  "FindOrAdd m k dflt = (case m k of None \<Rightarrow> (m(k \<mapsto> dflt), dflt) | Some v \<Rightarrow> (m, v))"

text \<open>\<^verbatim>\<open>TMap::FindChecked\<close> asserts that the key is present.\<close>

definition FindChecked :: "('k \<rightharpoonup> 'v) \<Rightarrow> 'k \<Rightarrow> error \<Rightarrow> error + 'v" where
  "FindChecked m k err = (case m k of None \<Rightarrow> Inl err | Some v \<Rightarrow> Inr v)"

definition UpdateAssetPathsMap :: "FDungeonRoomDatabase \<Rightarrow> FAssetData \<Rightarrow> FDungeonRoomDatabase" where
  "UpdateAssetPathsMap db Asset =
     (let PathToAsset = GetSoftObjectPath Asset;
          RoomSpecs = GetRoomSpecs Asset;
          (paths, AssetPaths) = FindOrAdd (m_PathsByRoomSpecs db) RoomSpecs []
      in db\<lparr>m_PathsByRoomSpecs := paths(RoomSpecs \<mapsto> AssetPaths @ [PathToAsset])\<rparr>)"

definition UpdateMaxWidthAndLengthMaps ::
  "FDungeonRoomDatabase \<Rightarrow> FAssetData \<Rightarrow> FDungeonRoomDatabase" where
  "UpdateMaxWidthAndLengthMaps db Asset =
     (let RoomSpecs = GetRoomSpecs Asset;
          (widths, MaxWidth) = FindOrAdd (m_MaxWidthByTheme db) (Theme RoomSpecs) 0;
          widths' = (if Width (Dimensions RoomSpecs) > MaxWidth
                     then widths(Theme RoomSpecs \<mapsto> Width (Dimensions RoomSpecs))
                     else widths);
          (lengths, MaxLength) = FindOrAdd (m_MaxLengthByTheme db) (Theme RoomSpecs) 0;
          lengths' = (if Length (Dimensions RoomSpecs) > MaxLength
                      then lengths(Theme RoomSpecs \<mapsto> Length (Dimensions RoomSpecs))
                      else lengths)
      in db\<lparr>m_MaxWidthByTheme := widths', m_MaxLengthByTheme := lengths'\<rparr>)"

definition AddAssetToDatabase :: "FDungeonRoomDatabase \<Rightarrow> FAssetData \<Rightarrow> FDungeonRoomDatabase" where
  "AddAssetToDatabase db Asset = UpdateMaxWidthAndLengthMaps (UpdateAssetPathsMap db Asset) Asset"

text \<open>
  \<^verbatim>\<open>InitializeDatabase\<close>: \<open>RoomAssets\<close> is the array that
  \<^verbatim>\<open>FAssetSearcher::FindDerivedBlueprintAssetsInPath\<close> (not among the sources)
  returns for the path, in the order of the search.
\<close>

definition InitializeDatabase ::
  "FDungeonRoomDatabase \<Rightarrow> FAssetData list \<Rightarrow> error + FDungeonRoomDatabase" where
  "InitializeDatabase db RoomAssets =
     (if \<not> length RoomAssets > 0 then Inl EmptyCatalog
      else Inr (foldl AddAssetToDatabase db RoomAssets))"

text \<open>The constructor: the three maps start empty.\<close>

definition FDungeonRoomDatabase_ctor :: "FAssetData list \<Rightarrow> error + FDungeonRoomDatabase" where
  "FDungeonRoomDatabase_ctor RoomAssets =
     InitializeDatabase
       \<lparr>m_PathsByRoomSpecs = Map.empty, m_MaxWidthByTheme = Map.empty,
        m_MaxLengthByTheme = Map.empty\<rparr> RoomAssets"

definition GetAssetPaths ::
  "FDungeonRoomDatabase \<Rightarrow> FDungeonRoomSpecs \<Rightarrow> error + FSoftObjectPath list" where
  "GetAssetPaths db RoomSpecs = FindChecked (m_PathsByRoomSpecs db) RoomSpecs SpecificationNotFound"

definition GetMaxWidth :: "FDungeonRoomDatabase \<Rightarrow> EDungeonTheme \<Rightarrow> error + FNumberOfTiles" where
  "GetMaxWidth db theme = FindChecked (m_MaxWidthByTheme db) theme ThemeNotFound"

definition GetMaxLength :: "FDungeonRoomDatabase \<Rightarrow> EDungeonTheme \<Rightarrow> error + FNumberOfTiles" where
  "GetMaxLength db theme = FindChecked (m_MaxLengthByTheme db) theme ThemeNotFound"

definition DoesAssetExistWithSpecs :: "FDungeonRoomDatabase \<Rightarrow> FDungeonRoomSpecs \<Rightarrow> error + bool" where
  "DoesAssetExistWithSpecs db Specs =
     (if \<not> (Width (Dimensions Specs) > 0 \<and> Length (Dimensions Specs) > 0)
      then Inl InvalidSpecification
      else Inr (m_PathsByRoomSpecs db Specs \<noteq> None))"

section \<open>Footprint and example data\<close>

text \<open>
  The footprint invariant, in the words of the specification's data model, for a room
  of the sources: the north and south walls have \<^verbatim>\<open>m_Width\<close> segments, the east and
  west walls \<^verbatim>\<open>m_Length\<close>. The sources never check it; it is an obligation on the
  blueprint.
\<close>

definition FootprintInvariant :: "ADungeonRoom \<Rightarrow> bool" where
  "FootprintInvariant room \<longleftrightarrow>
     int (length (m_SegmentMeshes (m_NorthWall room))) = m_Width room \<and>
     int (length (m_SegmentMeshes (m_SouthWall room))) = m_Width room \<and>
     int (length (m_SegmentMeshes (m_EastWall room))) = m_Length room \<and>
     int (length (m_SegmentMeshes (m_WestWall room))) = m_Length room"


text \<open>\<^verbatim>\<open>FWallLocation{ Direction, Index }\<close>, as the tests write locations.\<close>

definition WallLoc :: "EDirection \<Rightarrow> int \<Rightarrow> FWallLocation" where
  "WallLoc d i = \<lparr>WallDirection = d, SegmentIndex = i\<rparr>"

text \<open>
  Example data. The meshes at addresses 1 and 2 are door meshes, the mesh at address 3
  is a wall mesh. A wall segment of a blueprint is a static mesh component tagged with
  its index.
\<close>

definition game_world :: UWorld where
  "game_world = \<lparr>IsGameWorld = True\<rparr>"

definition tagged_segment :: "int \<Rightarrow> UStaticMesh \<Rightarrow> USceneComponent" where
  "tagged_segment i m =
     \<lparr>IsStaticMeshComponent = True,
      ComponentTags = [\<lparr>IsNumeric = True, Atoi = i\<rparr>],
      StaticMesh = m\<rparr>"

text \<open>A blueprint of a 4 by 3 room without doors.\<close>

definition class_4x3 :: UClass where
  "class_4x3 =
     \<lparr>Default_DoorMeshes = [1, 2], Default_WallMeshes = [3],
      Default_Theme = 0, Default_Width = 4, Default_Length = 3,
      NorthWall_Children =
        [tagged_segment 0 3, tagged_segment 1 3, tagged_segment 2 3, tagged_segment 3 3],
      SouthWall_Children =
        [tagged_segment 3 3, tagged_segment 2 3, tagged_segment 1 3, tagged_segment 0 3],
      WestWall_Children = [tagged_segment 0 3, tagged_segment 1 3, tagged_segment 2 3],
      EastWall_Children = [tagged_segment 0 3, tagged_segment 1 3, tagged_segment 2 3]\<rparr>"

text \<open>The room spawned from it.\<close>

definition room_4x3 :: ADungeonRoom where
  "room_4x3 =
     \<lparr>m_DoorMeshes = [1, 2], m_WallMeshes = [3],
      m_NorthWall = \<lparr>m_SegmentMeshes = [Some 3, Some 3, Some 3, Some 3]\<rparr>,
      m_WestWall = \<lparr>m_SegmentMeshes = [Some 3, Some 3, Some 3]\<rparr>,
      m_EastWall = \<lparr>m_SegmentMeshes = [Some 3, Some 3, Some 3]\<rparr>,
      m_SouthWall = \<lparr>m_SegmentMeshes = [Some 3, Some 3, Some 3, Some 3]\<rparr>,
      m_Theme = 0, m_Width = 4, m_Length = 3\<rparr>"

text \<open>
  A blueprint with a door mesh already on the north wall at index 1, as the asset of
  the test \<^verbatim>\<open>TestDetectingDoor\<close> has, and the room spawned from it.
\<close>

definition class_with_door :: UClass where
  "class_with_door =
     \<lparr>Default_DoorMeshes = [1], Default_WallMeshes = [3],
      Default_Theme = 0, Default_Width = 2, Default_Length = 1,
      NorthWall_Children = [tagged_segment 0 3, tagged_segment 1 1],
      SouthWall_Children = [tagged_segment 0 3, tagged_segment 1 3],
      WestWall_Children = [tagged_segment 0 3],
      EastWall_Children = [tagged_segment 0 3]\<rparr>"

definition room_with_door :: ADungeonRoom where
  "room_with_door =
     \<lparr>m_DoorMeshes = [1], m_WallMeshes = [3],
      m_NorthWall = \<lparr>m_SegmentMeshes = [Some 3, Some 1]\<rparr>,
      m_WestWall = \<lparr>m_SegmentMeshes = [Some 3]\<rparr>,
      m_EastWall = \<lparr>m_SegmentMeshes = [Some 3]\<rparr>,
      m_SouthWall = \<lparr>m_SegmentMeshes = [Some 3, Some 3]\<rparr>,
      m_Theme = 0, m_Width = 2, m_Length = 1\<rparr>"

text \<open>
  Rooms whose blueprint leaves a mesh array empty; the last one is the second one after a
  door is added on the north wall at index 0.
\<close>

definition room_without_door_meshes :: ADungeonRoom where
  "room_without_door_meshes = room_4x3\<lparr>m_DoorMeshes := []\<rparr>"

definition room_without_wall_meshes :: ADungeonRoom where
  "room_without_wall_meshes = room_with_door\<lparr>m_WallMeshes := []\<rparr>"

definition room_without_wall_meshes_door :: ADungeonRoom where
  "room_without_wall_meshes_door =
     room_without_wall_meshes\<lparr>m_NorthWall := \<lparr>m_SegmentMeshes = [Some 1, Some 1]\<rparr>\<rparr>"

text \<open>
  A room whose blueprint lists the mesh at address 1 both as a door mesh and as a wall
  mesh, before and after a door is added on the north wall at index 0.
\<close>

definition room_shared_mesh :: ADungeonRoom where
  "room_shared_mesh =
     \<lparr>m_DoorMeshes = [1], m_WallMeshes = [1],
      m_NorthWall = \<lparr>m_SegmentMeshes = [Some 3]\<rparr>,
      m_WestWall = \<lparr>m_SegmentMeshes = [Some 3]\<rparr>,
      m_EastWall = \<lparr>m_SegmentMeshes = [Some 3]\<rparr>,
      m_SouthWall = \<lparr>m_SegmentMeshes = [Some 3]\<rparr>,
      m_Theme = 0, m_Width = 1, m_Length = 1\<rparr>"

definition room_shared_mesh_door :: ADungeonRoom where
  "room_shared_mesh_door =
     room_shared_mesh\<lparr>m_NorthWall := \<lparr>m_SegmentMeshes = [Some 1]\<rparr>\<rparr>"

text \<open>
  The spawn request of the test \<^verbatim>\<open>TestIfSpawnMethodAddsDoors\<close>, for the 4 by 3
  blueprint: one door on each wall.
\<close>

definition spawn_info_4x3 :: FSpawnInfo where
  "spawn_info_4x3 =
     \<lparr>LoadedAsset = class_4x3,
      DoorLocations = [WallLoc North 0, WallLoc South 1, WallLoc East 2, WallLoc West 2]\<rparr>"

text \<open>
  The records the database is asked about, in the words of its documentation: the assets
  of a theme, the assets with given specs, and the width and length of an asset.
\<close>

definition AssetWidth :: "FAssetData \<Rightarrow> FNumberOfTiles" where
  "AssetWidth Asset = Width (Dimensions (GetRoomSpecs Asset))"

definition AssetLength :: "FAssetData \<Rightarrow> FNumberOfTiles" where
  "AssetLength Asset = Length (Dimensions (GetRoomSpecs Asset))"

definition AssetsOfTheme :: "FAssetData list \<Rightarrow> EDungeonTheme \<Rightarrow> FAssetData list" where
  "AssetsOfTheme RoomAssets theme = filter (\<lambda>Asset. Theme (GetRoomSpecs Asset) = theme) RoomAssets"

definition AssetsWithSpecs :: "FAssetData list \<Rightarrow> FDungeonRoomSpecs \<Rightarrow> FAssetData list" where
  "AssetsWithSpecs RoomAssets Specs = filter (\<lambda>Asset. GetRoomSpecs Asset = Specs) RoomAssets"

text \<open>The database as the constructor leaves it, for a catalog of any length.\<close>

definition built :: "FAssetData list \<Rightarrow> FDungeonRoomDatabase" where
  "built RoomAssets =
     foldl AddAssetToDatabase
       \<lparr>m_PathsByRoomSpecs = Map.empty, m_MaxWidthByTheme = Map.empty,
        m_MaxLengthByTheme = Map.empty\<rparr> RoomAssets"

text \<open>
  An example catalog of four assets in two themes. The widest room of the first theme
  (6 by 4) is not its longest (4 by 7), and two assets have the specs (first theme, 4, 7).
\<close>

definition Crypt :: EDungeonTheme where
  "Crypt = 0"

definition Hall :: EDungeonTheme where
  "Hall = 1"

definition RoomSpecs :: "EDungeonTheme \<Rightarrow> int \<Rightarrow> int \<Rightarrow> FDungeonRoomSpecs" where
  "RoomSpecs theme w l = \<lparr>Theme = theme, Dimensions = \<lparr>Width = w, Length = l\<rparr>\<rparr>"

definition RoomAsset :: "FSoftObjectPath \<Rightarrow> EDungeonTheme \<Rightarrow> int \<Rightarrow> int \<Rightarrow> FAssetData" where
  "RoomAsset path theme w l = \<lparr>GetSoftObjectPath = path, GetRoomSpecs = RoomSpecs theme w l\<rparr>"

definition example_catalog :: "FAssetData list" where
  "example_catalog =
     [RoomAsset ''a'' Crypt 4 7, RoomAsset ''b'' Crypt 6 4,
      RoomAsset ''c'' Hall 4 4, RoomAsset ''d'' Crypt 4 7]"

text \<open>
  A blueprint of a 4 by 3 room with a door mesh already on the north wall at index 1,
  the room spawned from it, and that room after doors are added at north 0, south 2,
  east 1 and west 0 (the generator drawing 0, 1, 2, 3).
\<close>

definition class_4x3_door :: UClass where
  "class_4x3_door =
     class_4x3\<lparr>NorthWall_Children :=
       [tagged_segment 0 3, tagged_segment 1 1, tagged_segment 2 3, tagged_segment 3 3]\<rparr>"

definition room_4x3_door :: ADungeonRoom where
  "room_4x3_door =
     room_4x3\<lparr>m_NorthWall := \<lparr>m_SegmentMeshes = [Some 3, Some 1, Some 3, Some 3]\<rparr>\<rparr>"

definition room_4x3_door_four :: ADungeonRoom where
  "room_4x3_door_four =
     room_4x3
       \<lparr>m_NorthWall := \<lparr>m_SegmentMeshes = [Some 1, Some 1, Some 3, Some 3]\<rparr>,
        m_WestWall := \<lparr>m_SegmentMeshes = [Some 2, Some 3, Some 3]\<rparr>,
        m_EastWall := \<lparr>m_SegmentMeshes = [Some 3, Some 1, Some 3]\<rparr>,
        m_SouthWall := \<lparr>m_SegmentMeshes = [Some 3, Some 3, Some 2, Some 3]\<rparr>\<rparr>"

section \<open>Properties of the room operations\<close>

lemmas example_defs = WallLoc_def game_world_def tagged_segment_def class_4x3_def room_4x3_def
  class_with_door_def room_with_door_def room_without_door_meshes_def
  room_without_wall_meshes_def room_without_wall_meshes_door_def room_shared_mesh_def
  room_shared_mesh_door_def spawn_info_4x3_def class_4x3_door_def room_4x3_door_def
  room_4x3_door_four_def

lemmas room_defs = HasDoorAtLocation_def IsValidWallLocation_def IsValidSegmentIndex_def
  GetSegment_def AddDoor_def RemoveDoor_def SetStaticMesh_def GetRandomMesh_def
  RandRange_def RandHelper_def Let_def

lemmas spawn_defs = SpawnActor_def PostActorCreated_def InitializeComponent_def
  InitializeSegmentMeshes_def SetNum_def GetIndexOfSegment_def ADungeonRoom_ctor_def
  CreateWall_def USegmentedWall_ctor_def Let_def

subsection \<open>The random mesh\<close>

lemma RandRange_bounds:
  "0 < n \<Longrightarrow> 0 \<le> RandRange 0 (int n - 1) raw \<and> RandRange 0 (int n - 1) raw < int n"
  by (simp add: RandRange_def RandHelper_def)

lemma GetRandomMesh_Inr:
  "Meshes \<noteq> [] \<Longrightarrow> \<exists>m. GetRandomMesh Meshes raw = Inr m \<and> m \<in> set Meshes"
proof -
  assume "Meshes \<noteq> []"
  then have "0 < length Meshes" by simp
  from RandRange_bounds [OF this, of raw]
  show ?thesis
    by (auto simp: GetRandomMesh_def Let_def intro!: nth_mem)
qed

lemma GetRandomMesh_mem: "GetRandomMesh Meshes raw = Inr m \<Longrightarrow> m \<in> set Meshes"
  by (auto simp: GetRandomMesh_def Let_def split: if_splits)

text \<open>Every mesh of the array is drawn for some output of the generator.\<close>

lemma GetRandomMesh_any:
  "i < length Meshes \<Longrightarrow> GetRandomMesh Meshes i = Inr (Meshes ! i)"
  by (cases Meshes) (auto simp: GetRandomMesh_def Let_def RandRange_def RandHelper_def)

subsection \<open>Reading and writing one segment\<close>

lemma GetWall_PutWall: "GetWall (PutWall room d w) d' = (if d' = d then w else GetWall room d')"
  by (cases d; cases d') simp_all

lemma m_DoorMeshes_PutWall [simp]: "m_DoorMeshes (PutWall room d w) = m_DoorMeshes room"
  by (cases d) simp_all

lemma m_WallMeshes_PutWall [simp]: "m_WallMeshes (PutWall room d w) = m_WallMeshes room"
  by (cases d) simp_all

lemma HasDoor_Inr_iff:
  "HasDoorAtLocation room loc = Inr b \<longleftrightarrow>
     IsValidWallLocation room loc \<and>
     (\<exists>m. m_SegmentMeshes (GetWall room (WallDirection loc)) ! nat (SegmentIndex loc) = Some m \<and>
          b = (m \<in> set (m_DoorMeshes room)))"
  by (auto simp: HasDoorAtLocation_def GetSegment_def IsValidWallLocation_def split: option.splits)

lemma HasDoor_cases:
  "HasDoorAtLocation room loc = Inl InvalidLocation \<and> \<not> IsValidWallLocation room loc \<or>
   HasDoorAtLocation room loc = Inl NullSegment \<and> IsValidWallLocation room loc \<or>
   HasDoorAtLocation room loc = Inr True \<and> IsValidWallLocation room loc \<or>
   HasDoorAtLocation room loc = Inr False \<and> IsValidWallLocation room loc"
  by (auto simp: HasDoorAtLocation_def GetSegment_def IsValidWallLocation_def split: option.splits)

lemma SetStaticMesh_succeeds:
  "HasDoorAtLocation room loc = Inr b \<Longrightarrow> \<exists>room'. SetStaticMesh room loc m = Inr room'"
  by (auto simp: HasDoor_Inr_iff SetStaticMesh_def Let_def GetSegment_def IsValidWallLocation_def)

lemma SetStaticMesh_same:
  "SetStaticMesh room loc m = Inr room' \<Longrightarrow>
   HasDoorAtLocation room' loc = Inr (m \<in> set (m_DoorMeshes room))"
  by (auto simp: SetStaticMesh_def Let_def GetSegment_def HasDoorAtLocation_def
      IsValidWallLocation_def IsValidSegmentIndex_def GetWall_PutWall
      split: if_splits option.splits)

lemma SetStaticMesh_other:
  "SetStaticMesh room loc m = Inr room' \<Longrightarrow> loc2 \<noteq> loc \<Longrightarrow>
   HasDoorAtLocation room' loc2 = HasDoorAtLocation room loc2"
proof -
  assume upd: "SetStaticMesh room loc m = Inr room'" and ne: "loc2 \<noteq> loc"
  show ?thesis
  proof (cases "WallDirection loc2 = WallDirection loc")
    case False
    with upd show ?thesis
      by (auto simp: SetStaticMesh_def Let_def GetSegment_def HasDoorAtLocation_def
          IsValidWallLocation_def IsValidSegmentIndex_def GetWall_PutWall
          split: if_splits option.splits)
  next
    case True
    with ne have idx: "SegmentIndex loc2 \<noteq> SegmentIndex loc"
      by (auto intro: FWallLocation.equality)
    then have "0 \<le> SegmentIndex loc2 \<Longrightarrow> 0 \<le> SegmentIndex loc \<Longrightarrow>
        nat (SegmentIndex loc) \<noteq> nat (SegmentIndex loc2)"
      by simp
    with upd True show ?thesis
      by (auto simp: SetStaticMesh_def Let_def GetSegment_def HasDoorAtLocation_def
          IsValidWallLocation_def IsValidSegmentIndex_def GetWall_PutWall
          split: if_splits option.splits)
  qed
qed

lemma SetStaticMesh_palettes:
  "SetStaticMesh room loc m = Inr room' \<Longrightarrow>
   m_DoorMeshes room' = m_DoorMeshes room \<and> m_WallMeshes room' = m_WallMeshes room"
  by (auto simp: SetStaticMesh_def Let_def split: sum.splits option.splits)

subsection \<open>Adding and removing one door\<close>

lemma AddDoor_succeeds:
  assumes "m_DoorMeshes room \<noteq> []" and "HasDoorAtLocation room loc = Inr False"
  shows "\<exists>m room'. GetRandomMesh (m_DoorMeshes room) raw = Inr m \<and> m \<in> set (m_DoorMeshes room) \<and>
           SetStaticMesh room loc m = Inr room' \<and> AddDoor room loc raw = Inr room'"
proof -
  from GetRandomMesh_Inr [OF assms(1), of raw] obtain m
    where m: "GetRandomMesh (m_DoorMeshes room) raw = Inr m" "m \<in> set (m_DoorMeshes room)"
    by blast
  from SetStaticMesh_succeeds [OF assms(2), of m] obtain room'
    where r: "SetStaticMesh room loc m = Inr room'" by blast
  from assms(2) have "IsValidWallLocation room loc" by (simp add: HasDoor_Inr_iff)
  with assms m r have "AddDoor room loc raw = Inr room'"
    by (simp add: AddDoor_def)
  with m r show ?thesis by blast
qed

lemma RemoveDoor_succeeds:
  assumes "m_WallMeshes room \<noteq> []" and "HasDoorAtLocation room loc = Inr True"
  shows "\<exists>m room'. GetRandomMesh (m_WallMeshes room) raw = Inr m \<and> m \<in> set (m_WallMeshes room) \<and>
           SetStaticMesh room loc m = Inr room' \<and> RemoveDoor room loc raw = Inr room'"
proof -
  from GetRandomMesh_Inr [OF assms(1), of raw] obtain m
    where m: "GetRandomMesh (m_WallMeshes room) raw = Inr m" "m \<in> set (m_WallMeshes room)"
    by blast
  from SetStaticMesh_succeeds [OF assms(2), of m] obtain room'
    where r: "SetStaticMesh room loc m = Inr room'" by blast
  from assms(2) have "IsValidWallLocation room loc" by (simp add: HasDoor_Inr_iff)
  with assms m r have "RemoveDoor room loc raw = Inr room'"
    by (simp add: RemoveDoor_def)
  with m r show ?thesis by blast
qed

lemma AddDoor_Inr_D:
  "AddDoor room loc raw = Inr room' \<Longrightarrow>
   \<exists>m. m \<in> set (m_DoorMeshes room) \<and> SetStaticMesh room loc m = Inr room'"
  by (auto simp: AddDoor_def split: if_splits sum.splits bool.splits dest: GetRandomMesh_mem)

lemma RemoveDoor_Inr_D:
  "RemoveDoor room loc raw = Inr room' \<Longrightarrow>
   \<exists>m. m \<in> set (m_WallMeshes room) \<and> SetStaticMesh room loc m = Inr room'"
  by (auto simp: RemoveDoor_def split: if_splits sum.splits bool.splits dest: GetRandomMesh_mem)

lemma AddDoor_effect:
  assumes "m_DoorMeshes room \<noteq> []" and "HasDoorAtLocation room L = Inr False"
  shows "\<exists>room'. AddDoor room L raw = Inr room' \<and> m_DoorMeshes room' = m_DoorMeshes room \<and>
           HasDoorAtLocation room' L = Inr True \<and>
           (\<forall>L2. L2 \<noteq> L \<longrightarrow> HasDoorAtLocation room' L2 = HasDoorAtLocation room L2)"
proof -
  from AddDoor_succeeds [OF assms, of raw] obtain m room'
    where m: "m \<in> set (m_DoorMeshes room)" and s: "SetStaticMesh room L m = Inr room'"
      and a: "AddDoor room L raw = Inr room'" by blast
  from SetStaticMesh_same [OF s] m have "HasDoorAtLocation room' L = Inr True" by simp
  moreover from SetStaticMesh_palettes [OF s] have "m_DoorMeshes room' = m_DoorMeshes room" by simp
  moreover from SetStaticMesh_other [OF s]
  have "\<forall>L2. L2 \<noteq> L \<longrightarrow> HasDoorAtLocation room' L2 = HasDoorAtLocation room L2" by blast
  ultimately show ?thesis using a by blast
qed

lemma RemoveDoor_effect:
  assumes "m_WallMeshes room \<noteq> []" and "HasDoorAtLocation room L = Inr True"
  shows "\<exists>room'. RemoveDoor room L raw = Inr room' \<and>
           (\<exists>m\<in>set (m_WallMeshes room).
              HasDoorAtLocation room' L = Inr (m \<in> set (m_DoorMeshes room)))"
proof -
  from RemoveDoor_succeeds [OF assms, of raw] obtain m room'
    where m: "m \<in> set (m_WallMeshes room)" and s: "SetStaticMesh room L m = Inr room'"
      and a: "RemoveDoor room L raw = Inr room'" by blast
  from SetStaticMesh_same [OF s] m a show ?thesis by blast
qed

lemma SetStaticMesh_shows:
  "SetStaticMesh room loc m = Inr room' \<Longrightarrow>
   m_SegmentMeshes (GetWall room' (WallDirection loc)) ! nat (SegmentIndex loc) = Some m"
  by (auto simp: SetStaticMesh_def Let_def GetSegment_def IsValidSegmentIndex_def
      GetWall_PutWall split: if_splits option.splits)

text \<open>What a successful call leaves in the segment.\<close>

lemma AddDoor_shows:
  assumes "m_DoorMeshes room \<noteq> []" and "HasDoorAtLocation room L = Inr False"
  shows "\<exists>room'. AddDoor room L raw = Inr room' \<and>
           (\<exists>m\<in>set (m_DoorMeshes room).
              m_SegmentMeshes (GetWall room' (WallDirection L)) ! nat (SegmentIndex L) = Some m) \<and>
           HasDoorAtLocation room' L = Inr True"
proof -
  from AddDoor_succeeds [OF assms, of raw] obtain m room'
    where m: "m \<in> set (m_DoorMeshes room)" and s: "SetStaticMesh room L m = Inr room'"
      and a: "AddDoor room L raw = Inr room'" by blast
  from SetStaticMesh_same [OF s] m have "HasDoorAtLocation room' L = Inr True" by simp
  with SetStaticMesh_shows [OF s] m a show ?thesis by blast
qed

lemma RemoveDoor_shows:
  assumes "m_WallMeshes room \<noteq> []" and "HasDoorAtLocation room L = Inr True"
  shows "\<exists>room'. RemoveDoor room L raw = Inr room' \<and>
           (\<exists>m\<in>set (m_WallMeshes room).
              m_SegmentMeshes (GetWall room' (WallDirection L)) ! nat (SegmentIndex L) = Some m \<and>
              HasDoorAtLocation room' L = Inr (m \<in> set (m_DoorMeshes room)))"
proof -
  from RemoveDoor_succeeds [OF assms, of raw] obtain m room'
    where m: "m \<in> set (m_WallMeshes room)" and s: "SetStaticMesh room L m = Inr room'"
      and a: "RemoveDoor room L raw = Inr room'" by blast
  from SetStaticMesh_same [OF s] SetStaticMesh_shows [OF s] m a show ?thesis by blast
qed

lemma AddDoor_Inl_D:
  "AddDoor room loc raw = Inl e \<Longrightarrow> HasDoorAtLocation room loc \<noteq> Inl NullSegment \<Longrightarrow>
   e = MissingDoorMeshes \<and> m_DoorMeshes room = [] \<or>
   e = InvalidLocation \<and> \<not> IsValidWallLocation room loc \<or>
   e = DoorAlreadyPresent \<and> HasDoorAtLocation room loc = Inr True"
proof -
  assume f: "AddDoor room loc raw = Inl e" and n: "HasDoorAtLocation room loc \<noteq> Inl NullSegment"
  show ?thesis
  proof (cases "m_DoorMeshes room = []")
    case True
    with f show ?thesis by (simp add: AddDoor_def)
  next
    case False
    from HasDoor_cases [of room loc] n
    consider "\<not> IsValidWallLocation room loc"
      | "HasDoorAtLocation room loc = Inr True" | "HasDoorAtLocation room loc = Inr False"
      by blast
    then show ?thesis
    proof cases
      case 1
      with f False show ?thesis by (simp add: AddDoor_def)
    next
      case 2
      then have "IsValidWallLocation room loc" by (simp add: HasDoor_Inr_iff)
      with f False 2 show ?thesis by (simp add: AddDoor_def)
    next
      case 3
      from AddDoor_succeeds [OF False 3, of raw] f show ?thesis by auto
    qed
  qed
qed

lemma RemoveDoor_Inl_D:
  "RemoveDoor room loc raw = Inl e \<Longrightarrow> HasDoorAtLocation room loc \<noteq> Inl NullSegment \<Longrightarrow>
   e = MissingWallMeshes \<and> m_WallMeshes room = [] \<or>
   e = InvalidLocation \<and> \<not> IsValidWallLocation room loc \<or>
   e = NoDoorPresent \<and> HasDoorAtLocation room loc = Inr False"
proof -
  assume f: "RemoveDoor room loc raw = Inl e" and n: "HasDoorAtLocation room loc \<noteq> Inl NullSegment"
  show ?thesis
  proof (cases "m_WallMeshes room = []")
    case True
    with f show ?thesis by (simp add: RemoveDoor_def)
  next
    case False
    from HasDoor_cases [of room loc] n
    consider "\<not> IsValidWallLocation room loc"
      | "HasDoorAtLocation room loc = Inr True" | "HasDoorAtLocation room loc = Inr False"
      by blast
    then show ?thesis
    proof cases
      case 1
      with f False show ?thesis by (simp add: RemoveDoor_def)
    next
      case 3
      then have "IsValidWallLocation room loc" by (simp add: HasDoor_Inr_iff)
      with f False 3 show ?thesis by (simp add: RemoveDoor_def)
    next
      case 2
      from RemoveDoor_succeeds [OF False 2, of raw] f show ?thesis by auto
    qed
  qed
qed

section \<open>Claims about the room\<close>

subsection \<open>Empty mesh arrays\<close>

text \<open>
  Claim C10. When the array of door meshes of a room is empty, \<^verbatim>\<open>AddDoor\<close> fails at
  every wall location, also at a valid one without a door; when the array of wall meshes
  is empty, \<^verbatim>\<open>RemoveDoor\<close> fails at every wall location. The check comes before the
  checks of the location and of the door: the failure is the missing-meshes one whatever
  the location is, and it is none of the failures of a wrong location or a wrong door
  state.
\<close>

theorem empty_mesh_array_fails:
  "(m_DoorMeshes room = [] \<longrightarrow> AddDoor room loc raw = Inl MissingDoorMeshes) \<and>
   (m_WallMeshes room = [] \<longrightarrow> RemoveDoor room loc raw = Inl MissingWallMeshes)"
  by (simp add: AddDoor_def RemoveDoor_def)

text \<open>
  A 4 by 3 room without door meshes refuses a door at the valid, door-free location
  north 2 and at the invalid location north 7 alike; a room without wall meshes refuses
  to remove the door it has at north 1.
\<close>

theorem empty_mesh_array_fails_witness:
  "m_DoorMeshes room_without_door_meshes = [] \<and>
   HasDoorAtLocation room_without_door_meshes (WallLoc North 2) = Inr False \<and>
   AddDoor room_without_door_meshes (WallLoc North 2) 0 = Inl MissingDoorMeshes \<and>
   \<not> IsValidWallLocation room_without_door_meshes (WallLoc North 7) \<and>
   AddDoor room_without_door_meshes (WallLoc North 7) 0 = Inl MissingDoorMeshes \<and>
   m_WallMeshes room_without_wall_meshes = [] \<and>
   HasDoorAtLocation room_without_wall_meshes (WallLoc North 1) = Inr True \<and>
   RemoveDoor room_without_wall_meshes (WallLoc North 1) 0 = Inl MissingWallMeshes"
proof -
  have d: "m_DoorMeshes room_without_door_meshes = []"
    by (simp add: room_without_door_meshes_def)
  have w: "m_WallMeshes room_without_wall_meshes = []"
    by (simp add: room_without_wall_meshes_def)
  have "HasDoorAtLocation room_without_door_meshes (WallLoc North 2) = Inr False"
    and "\<not> IsValidWallLocation room_without_door_meshes (WallLoc North 7)"
    and "HasDoorAtLocation room_without_wall_meshes (WallLoc North 1) = Inr True"
    by (simp_all add: example_defs room_defs)
  moreover
  from empty_mesh_array_fails [of room_without_door_meshes "WallLoc North 2" 0] d
  have "AddDoor room_without_door_meshes (WallLoc North 2) 0 = Inl MissingDoorMeshes" by simp
  moreover
  from empty_mesh_array_fails [of room_without_door_meshes "WallLoc North 7" 0] d
  have "AddDoor room_without_door_meshes (WallLoc North 7) 0 = Inl MissingDoorMeshes" by simp
  moreover
  from empty_mesh_array_fails [of room_without_wall_meshes "WallLoc North 1" 0] w
  have "RemoveDoor room_without_wall_meshes (WallLoc North 1) 0 = Inl MissingWallMeshes" by simp
  ultimately show ?thesis using d w by simp
qed

subsection \<open>The outcomes of adding and removing a door\<close>

text \<open>
  Claim C1 as the specification states it gives \<^verbatim>\<open>AddDoor\<close> two failures, at an
  invalid location and at a location with a door, and success everywhere else. The
  sources check the array of door meshes first: the room below has none, the location
  north 0 is valid and has no door, and \<^verbatim>\<open>AddDoor\<close> fails there.
\<close>

theorem AddDoor_fails_at_valid_free_location:
  "IsValidWallLocation room_without_door_meshes (WallLoc North 0) \<and>
   HasDoorAtLocation room_without_door_meshes (WallLoc North 0) = Inr False \<and>
   AddDoor room_without_door_meshes (WallLoc North 0) 0 = Inl MissingDoorMeshes"
  by (simp add: example_defs room_defs)

text \<open>
  Claim C1, amended. \<^verbatim>\<open>AddDoor\<close> fails when the room has no door meshes; otherwise
  it fails with \<open>InvalidLocation\<close> at an invalid location, fails with
  \<open>DoorAlreadyPresent\<close> at a location with a door, and at a location without a door it
  succeeds: the segment then shows a mesh of the door meshes and the location has a door.
  \<^verbatim>\<open>RemoveDoor\<close> fails when the room has no wall meshes; otherwise it fails with
  \<open>InvalidLocation\<close> at an invalid location, fails with \<open>NoDoorPresent\<close> at a
  location without a door, and at a location with a door it succeeds: the segment then
  shows a mesh \<open>m\<close> of the wall meshes, and the location has no door afterwards unless
  \<open>m\<close> is a door mesh too. At a location whose segment holds a component these are the
  only failures of the two operations.
\<close>

theorem AddDoor_RemoveDoor_outcomes:
  "(m_DoorMeshes room = [] \<longrightarrow> AddDoor room loc raw = Inl MissingDoorMeshes) \<and>
   (m_DoorMeshes room \<noteq> [] \<and> \<not> IsValidWallLocation room loc \<longrightarrow>
      AddDoor room loc raw = Inl InvalidLocation) \<and>
   (m_DoorMeshes room \<noteq> [] \<and> HasDoorAtLocation room loc = Inr True \<longrightarrow>
      AddDoor room loc raw = Inl DoorAlreadyPresent) \<and>
   (m_DoorMeshes room \<noteq> [] \<and> HasDoorAtLocation room loc = Inr False \<longrightarrow>
      (\<exists>room'. AddDoor room loc raw = Inr room' \<and>
         (\<exists>m\<in>set (m_DoorMeshes room).
            m_SegmentMeshes (GetWall room' (WallDirection loc)) ! nat (SegmentIndex loc) =
              Some m) \<and>
         HasDoorAtLocation room' loc = Inr True)) \<and>
   (AddDoor room loc raw = Inl e \<and> HasDoorAtLocation room loc \<noteq> Inl NullSegment \<longrightarrow>
      e = MissingDoorMeshes \<and> m_DoorMeshes room = [] \<or>
      e = InvalidLocation \<and> \<not> IsValidWallLocation room loc \<or>
      e = DoorAlreadyPresent \<and> HasDoorAtLocation room loc = Inr True) \<and>
   (m_WallMeshes room = [] \<longrightarrow> RemoveDoor room loc raw = Inl MissingWallMeshes) \<and>
   (m_WallMeshes room \<noteq> [] \<and> \<not> IsValidWallLocation room loc \<longrightarrow>
      RemoveDoor room loc raw = Inl InvalidLocation) \<and>
   (m_WallMeshes room \<noteq> [] \<and> HasDoorAtLocation room loc = Inr False \<longrightarrow>
      RemoveDoor room loc raw = Inl NoDoorPresent) \<and>
   (m_WallMeshes room \<noteq> [] \<and> HasDoorAtLocation room loc = Inr True \<longrightarrow>
      (\<exists>room'. RemoveDoor room loc raw = Inr room' \<and>
         (\<exists>m\<in>set (m_WallMeshes room).
            m_SegmentMeshes (GetWall room' (WallDirection loc)) ! nat (SegmentIndex loc) =
              Some m \<and>
            HasDoorAtLocation room' loc = Inr (m \<in> set (m_DoorMeshes room))))) \<and>
   (RemoveDoor room loc raw = Inl e \<and> HasDoorAtLocation room loc \<noteq> Inl NullSegment \<longrightarrow>
      e = MissingWallMeshes \<and> m_WallMeshes room = [] \<or>
      e = InvalidLocation \<and> \<not> IsValidWallLocation room loc \<or>
      e = NoDoorPresent \<and> HasDoorAtLocation room loc = Inr False)"
proof (intro conjI impI)
  show "AddDoor room loc raw = Inl MissingDoorMeshes" if "m_DoorMeshes room = []"
    using that by (simp add: AddDoor_def)
  show "AddDoor room loc raw = Inl InvalidLocation"
    if "m_DoorMeshes room \<noteq> [] \<and> \<not> IsValidWallLocation room loc"
    using that by (simp add: AddDoor_def)
  show "AddDoor room loc raw = Inl DoorAlreadyPresent"
    if "m_DoorMeshes room \<noteq> [] \<and> HasDoorAtLocation room loc = Inr True"
    using that HasDoor_cases [of room loc] by (auto simp: AddDoor_def)
  show "\<exists>room'. AddDoor room loc raw = Inr room' \<and>
         (\<exists>m\<in>set (m_DoorMeshes room).
            m_SegmentMeshes (GetWall room' (WallDirection loc)) ! nat (SegmentIndex loc) =
              Some m) \<and>
         HasDoorAtLocation room' loc = Inr True"
    if "m_DoorMeshes room \<noteq> [] \<and> HasDoorAtLocation room loc = Inr False"
    using that AddDoor_shows [of room loc raw] by blast
  show "e = MissingDoorMeshes \<and> m_DoorMeshes room = [] \<or>
      e = InvalidLocation \<and> \<not> IsValidWallLocation room loc \<or>
      e = DoorAlreadyPresent \<and> HasDoorAtLocation room loc = Inr True"
    if "AddDoor room loc raw = Inl e \<and> HasDoorAtLocation room loc \<noteq> Inl NullSegment"
    using that AddDoor_Inl_D [of room loc raw e] by blast
  show "RemoveDoor room loc raw = Inl MissingWallMeshes" if "m_WallMeshes room = []"
    using that by (simp add: RemoveDoor_def)
  show "RemoveDoor room loc raw = Inl InvalidLocation"
    if "m_WallMeshes room \<noteq> [] \<and> \<not> IsValidWallLocation room loc"
    using that by (simp add: RemoveDoor_def)
  show "RemoveDoor room loc raw = Inl NoDoorPresent"
    if "m_WallMeshes room \<noteq> [] \<and> HasDoorAtLocation room loc = Inr False"
    using that HasDoor_cases [of room loc] by (auto simp: RemoveDoor_def)
  show "\<exists>room'. RemoveDoor room loc raw = Inr room' \<and>
         (\<exists>m\<in>set (m_WallMeshes room).
            m_SegmentMeshes (GetWall room' (WallDirection loc)) ! nat (SegmentIndex loc) =
              Some m \<and>
            HasDoorAtLocation room' loc = Inr (m \<in> set (m_DoorMeshes room)))"
    if "m_WallMeshes room \<noteq> [] \<and> HasDoorAtLocation room loc = Inr True"
    using that RemoveDoor_shows [of room loc raw] by blast
  show "e = MissingWallMeshes \<and> m_WallMeshes room = [] \<or>
      e = InvalidLocation \<and> \<not> IsValidWallLocation room loc \<or>
      e = NoDoorPresent \<and> HasDoorAtLocation room loc = Inr False"
    if "RemoveDoor room loc raw = Inl e \<and> HasDoorAtLocation room loc \<noteq> Inl NullSegment"
    using that RemoveDoor_Inl_D [of room loc raw e] by blast
qed

text \<open>
  Each case at a concrete room. In the 4 by 3 room: north 4 is invalid; north 0 has no
  door, so that removing fails and adding succeeds. In the room with a door at north 1:
  adding there fails and removing succeeds. The rooms without door meshes and without
  wall meshes fail first.
\<close>

theorem AddDoor_RemoveDoor_outcomes_witness:
  "\<not> IsValidWallLocation room_4x3 (WallLoc North 4) \<and>
   AddDoor room_4x3 (WallLoc North 4) 0 = Inl InvalidLocation \<and>
   RemoveDoor room_4x3 (WallLoc North 4) 0 = Inl InvalidLocation \<and>
   HasDoorAtLocation room_4x3 (WallLoc North 0) = Inr False \<and>
   RemoveDoor room_4x3 (WallLoc North 0) 0 = Inl NoDoorPresent \<and>
   (\<exists>room'. AddDoor room_4x3 (WallLoc North 0) 0 = Inr room' \<and>
      (\<exists>m\<in>set (m_DoorMeshes room_4x3). m_SegmentMeshes (m_NorthWall room') ! 0 = Some m) \<and>
      HasDoorAtLocation room' (WallLoc North 0) = Inr True) \<and>
   HasDoorAtLocation room_with_door (WallLoc North 1) = Inr True \<and>
   AddDoor room_with_door (WallLoc North 1) 0 = Inl DoorAlreadyPresent \<and>
   (\<exists>room'. RemoveDoor room_with_door (WallLoc North 1) 0 = Inr room' \<and>
      m_SegmentMeshes (m_NorthWall room') ! 1 = Some 3 \<and>
      HasDoorAtLocation room' (WallLoc North 1) = Inr False) \<and>
   m_DoorMeshes room_without_door_meshes = [] \<and>
   AddDoor room_without_door_meshes (WallLoc West 1) 0 = Inl MissingDoorMeshes \<and>
   m_WallMeshes room_without_wall_meshes = [] \<and>
   RemoveDoor room_without_wall_meshes (WallLoc North 1) 0 = Inl MissingWallMeshes"
proof -
  have p: "m_DoorMeshes room_4x3 \<noteq> []" "m_WallMeshes room_4x3 \<noteq> []"
    "m_DoorMeshes room_with_door \<noteq> []" "m_WallMeshes room_with_door \<noteq> []"
    by (simp_all add: example_defs)
  have q: "m_DoorMeshes room_without_door_meshes = []"
    "m_WallMeshes room_without_wall_meshes = []"
    by (simp_all add: example_defs)
  note d = AddDoor_RemoveDoor_outcomes [of room_without_door_meshes "WallLoc West 1" 0]
  note w = AddDoor_RemoveDoor_outcomes [of room_without_wall_meshes "WallLoc North 1" 0]
  have h: "\<not> IsValidWallLocation room_4x3 (WallLoc North 4)"
    "HasDoorAtLocation room_4x3 (WallLoc North 0) = Inr False"
    "HasDoorAtLocation room_with_door (WallLoc North 1) = Inr True"
    by (simp_all add: example_defs room_defs)
  have s: "set (m_WallMeshes room_with_door) = {3}" "set (m_DoorMeshes room_with_door) = {1}"
    by (simp_all add: example_defs)
  note a = AddDoor_RemoveDoor_outcomes [of room_4x3 "WallLoc North 4" 0]
  note b = AddDoor_RemoveDoor_outcomes [of room_4x3 "WallLoc North 0" 0]
  note c = AddDoor_RemoveDoor_outcomes [of room_with_door "WallLoc North 1" 0]
  from a p h have "AddDoor room_4x3 (WallLoc North 4) 0 = Inl InvalidLocation"
    and "RemoveDoor room_4x3 (WallLoc North 4) 0 = Inl InvalidLocation" by blast+
  moreover from b p h have "RemoveDoor room_4x3 (WallLoc North 0) 0 = Inl NoDoorPresent"
    by blast
  moreover from b p h
  have "\<exists>room'. AddDoor room_4x3 (WallLoc North 0) 0 = Inr room' \<and>
      (\<exists>m\<in>set (m_DoorMeshes room_4x3).
         m_SegmentMeshes (GetWall room' (WallDirection (WallLoc North 0))) !
           nat (SegmentIndex (WallLoc North 0)) = Some m) \<and>
      HasDoorAtLocation room' (WallLoc North 0) = Inr True" by blast
  then have "\<exists>room'. AddDoor room_4x3 (WallLoc North 0) 0 = Inr room' \<and>
      (\<exists>m\<in>set (m_DoorMeshes room_4x3). m_SegmentMeshes (m_NorthWall room') ! 0 = Some m) \<and>
      HasDoorAtLocation room' (WallLoc North 0) = Inr True"
    by (simp add: WallLoc_def)
  moreover from c p h have "AddDoor room_with_door (WallLoc North 1) 0 = Inl DoorAlreadyPresent"
    by blast
  moreover from c p h have "\<exists>room'. RemoveDoor room_with_door (WallLoc North 1) 0 = Inr room' \<and>
         (\<exists>m\<in>set (m_WallMeshes room_with_door).
            m_SegmentMeshes (GetWall room' (WallDirection (WallLoc North 1))) !
              nat (SegmentIndex (WallLoc North 1)) = Some m \<and>
            HasDoorAtLocation room' (WallLoc North 1) = Inr (m \<in> set (m_DoorMeshes room_with_door)))"
    by blast
  then have "\<exists>room'. RemoveDoor room_with_door (WallLoc North 1) 0 = Inr room' \<and>
      m_SegmentMeshes (m_NorthWall room') ! 1 = Some 3 \<and>
      HasDoorAtLocation room' (WallLoc North 1) = Inr False"
    unfolding s by (simp add: WallLoc_def)
  moreover from d q
  have "AddDoor room_without_door_meshes (WallLoc West 1) 0 = Inl MissingDoorMeshes" by blast
  moreover from w q
  have "RemoveDoor room_without_wall_meshes (WallLoc North 1) 0 = Inl MissingWallMeshes" by blast
  ultimately show ?thesis using h q by simp
qed

subsection \<open>Adding a door and removing it again\<close>

text \<open>
  Claim C2 as the specification states it holds for every room. Three rooms show that it
  does not. In a room whose blueprint lists one mesh both as a door mesh and as a wall
  mesh, the door is added at north 0, \<^verbatim>\<open>RemoveDoor\<close> succeeds and puts that mesh, and
  \<^verbatim>\<open>HasDoorAtLocation\<close> still answers true. A room without door meshes refuses the
  door at the valid, door-free location east 1. A room without wall meshes takes the
  door at the valid, door-free location north 0 and then refuses to remove it.
\<close>

theorem door_round_trip_counterexample:
  "IsValidWallLocation room_shared_mesh (WallLoc North 0) \<and>
   HasDoorAtLocation room_shared_mesh (WallLoc North 0) = Inr False \<and>
   AddDoor room_shared_mesh (WallLoc North 0) 0 = Inr room_shared_mesh_door \<and>
   HasDoorAtLocation room_shared_mesh_door (WallLoc North 0) = Inr True \<and>
   RemoveDoor room_shared_mesh_door (WallLoc North 0) 0 = Inr room_shared_mesh_door \<and>
   HasDoorAtLocation room_without_door_meshes (WallLoc East 1) = Inr False \<and>
   AddDoor room_without_door_meshes (WallLoc East 1) 0 = Inl MissingDoorMeshes \<and>
   HasDoorAtLocation room_without_wall_meshes (WallLoc North 0) = Inr False \<and>
   AddDoor room_without_wall_meshes (WallLoc North 0) 0 = Inr room_without_wall_meshes_door \<and>
   HasDoorAtLocation room_without_wall_meshes_door (WallLoc North 0) = Inr True \<and>
   RemoveDoor room_without_wall_meshes_door (WallLoc North 0) 0 = Inl MissingWallMeshes"
  by (simp add: example_defs room_defs)

text \<open>
  Claim C2, amended. In a room that has door meshes and wall meshes, no mesh being both,
  at every valid location \<open>L\<close> without a door: \<^verbatim>\<open>AddDoor\<close> succeeds and
  \<^verbatim>\<open>HasDoorAtLocation\<close> then answers true at \<open>L\<close>; \<^verbatim>\<open>RemoveDoor\<close> right after
  succeeds and \<^verbatim>\<open>HasDoorAtLocation\<close> then answers false at \<open>L\<close>. This holds whatever
  the random generator draws.
\<close>

theorem door_round_trip:
  assumes door: "m_DoorMeshes room \<noteq> []" and wall: "m_WallMeshes room \<noteq> []"
    and disj: "set (m_WallMeshes room) \<inter> set (m_DoorMeshes room) = {}"
    and valid: "IsValidWallLocation room L"
    and free: "HasDoorAtLocation room L = Inr False"
  shows "\<exists>r1 r2. AddDoor room L raw1 = Inr r1 \<and> HasDoorAtLocation r1 L = Inr True \<and>
           RemoveDoor r1 L raw2 = Inr r2 \<and> HasDoorAtLocation r2 L = Inr False"
proof -
  from AddDoor_succeeds [OF door free, of raw1] obtain m r1
    where m: "m \<in> set (m_DoorMeshes room)" and s1: "SetStaticMesh room L m = Inr r1"
      and a: "AddDoor room L raw1 = Inr r1" by blast
  from SetStaticMesh_same [OF s1] m have h1: "HasDoorAtLocation r1 L = Inr True" by simp
  from SetStaticMesh_palettes [OF s1] door wall disj
  have p1: "m_DoorMeshes r1 = m_DoorMeshes room" "m_WallMeshes r1 \<noteq> []"
    "set (m_WallMeshes r1) \<inter> set (m_DoorMeshes r1) = {}" by simp_all
  from RemoveDoor_succeeds [OF p1(2) h1, of raw2] obtain m' r2
    where m': "m' \<in> set (m_WallMeshes r1)" and s2: "SetStaticMesh r1 L m' = Inr r2"
      and r: "RemoveDoor r1 L raw2 = Inr r2" by blast
  from m' p1(3) have "m' \<notin> set (m_DoorMeshes r1)" by blast
  with SetStaticMesh_same [OF s2] have "HasDoorAtLocation r2 L = Inr False" by simp
  with a h1 r show ?thesis by blast
qed

theorem door_round_trip_witness:
  "IsValidWallLocation room_4x3 (WallLoc East 2) \<and>
   HasDoorAtLocation room_4x3 (WallLoc East 2) = Inr False \<and>
   (\<exists>r1 r2. AddDoor room_4x3 (WallLoc East 2) 1 = Inr r1 \<and>
      HasDoorAtLocation r1 (WallLoc East 2) = Inr True \<and>
      RemoveDoor r1 (WallLoc East 2) 0 = Inr r2 \<and>
      HasDoorAtLocation r2 (WallLoc East 2) = Inr False)"
proof -
  have h1: "m_DoorMeshes room_4x3 \<noteq> []" and h2: "m_WallMeshes room_4x3 \<noteq> []"
    and h3: "set (m_WallMeshes room_4x3) \<inter> set (m_DoorMeshes room_4x3) = {}"
    by (simp_all add: room_4x3_def)
  have h4: "IsValidWallLocation room_4x3 (WallLoc East 2)"
    and h5: "HasDoorAtLocation room_4x3 (WallLoc East 2) = Inr False"
    by (simp_all add: example_defs room_defs)
  from door_round_trip [OF h1 h2 h3 h4 h5, of 1 0] h4 h5 show ?thesis by blast
qed

subsection \<open>Valid locations\<close>

text \<open>
  Claim C4. \<^verbatim>\<open>IsValidWallLocation\<close> compares the segment index with the number of
  segments of the wall the location names. So in a room with footprint (width, length),
  that is one whose north and south walls have \<^verbatim>\<open>m_Width\<close> segments and whose east
  and west walls have \<^verbatim>\<open>m_Length\<close> segments, it is true exactly when the segment
  index is in \<open>[0, width)\<close> for a location on the north or south wall, and in
  \<open>[0, length)\<close> for a location on the east or west wall. It is a total function to
  \<open>bool\<close>: for an index out of range, negative ones included, it answers false and
  has no failing branch.
\<close>

theorem IsValidWallLocation_footprint:
  "(IsValidWallLocation room loc \<longleftrightarrow>
      0 \<le> SegmentIndex loc \<and>
      SegmentIndex loc < int (length (m_SegmentMeshes (GetWall room (WallDirection loc))))) \<and>
   (FootprintInvariant room \<longrightarrow>
      (IsValidWallLocation room loc \<longleftrightarrow>
         0 \<le> SegmentIndex loc \<and>
         SegmentIndex loc <
           (case WallDirection loc of
              North \<Rightarrow> m_Width room | South \<Rightarrow> m_Width room
            | East \<Rightarrow> m_Length room | West \<Rightarrow> m_Length room)))"
proof (intro conjI impI)
  show "IsValidWallLocation room loc \<longleftrightarrow>
      0 \<le> SegmentIndex loc \<and>
      SegmentIndex loc < int (length (m_SegmentMeshes (GetWall room (WallDirection loc))))"
    by (simp add: IsValidWallLocation_def IsValidSegmentIndex_def)
next
  assume "FootprintInvariant room"
  then show "IsValidWallLocation room loc \<longleftrightarrow>
      0 \<le> SegmentIndex loc \<and>
      SegmentIndex loc <
        (case WallDirection loc of
           North \<Rightarrow> m_Width room | South \<Rightarrow> m_Width room
         | East \<Rightarrow> m_Length room | West \<Rightarrow> m_Length room)"
    by (cases "WallDirection loc")
      (simp_all add: FootprintInvariant_def IsValidWallLocation_def IsValidSegmentIndex_def)
qed

text \<open>The boundary indices of the 4 by 3 room: 3 and 4 on the north wall, 2 and 3 on the west.\<close>

theorem IsValidWallLocation_footprint_witness:
  "FootprintInvariant room_4x3 \<and>
   IsValidWallLocation room_4x3 (WallLoc North 0) \<and>
   IsValidWallLocation room_4x3 (WallLoc North 3) \<and>
   \<not> IsValidWallLocation room_4x3 (WallLoc North 4) \<and>
   \<not> IsValidWallLocation room_4x3 (WallLoc South (- 1)) \<and>
   IsValidWallLocation room_4x3 (WallLoc West 2) \<and>
   \<not> IsValidWallLocation room_4x3 (WallLoc West 3) \<and>
   \<not> IsValidWallLocation room_4x3 (WallLoc East 3)"
proof -
  have fp: "FootprintInvariant room_4x3"
    by (simp add: FootprintInvariant_def room_4x3_def)
  have wl: "m_Width room_4x3 = 4" "m_Length room_4x3 = 3"
    by (simp_all add: room_4x3_def)
  note iff = IsValidWallLocation_footprint [THEN conjunct2, rule_format, OF fp]
  show ?thesis
    using fp by (simp add: iff wl WallLoc_def)
qed

subsection \<open>Doors of a spawned room\<close>

lemma AddDoors_result:
  "m_DoorMeshes room \<noteq> [] \<Longrightarrow> distinct locs \<Longrightarrow>
   \<forall>L\<in>set locs. HasDoorAtLocation room L = Inr False \<Longrightarrow>
   \<exists>room'. AddDoors room locs rnd = Inr room' \<and>
     (\<forall>L\<in>set locs. HasDoorAtLocation room' L = Inr True) \<and>
     (\<forall>L. L \<notin> set locs \<longrightarrow> HasDoorAtLocation room' L = HasDoorAtLocation room L)"
proof (induction locs arbitrary: room rnd)
  case Nil
  then show ?case by simp
next
  case (Cons l ls)
  from Cons.prems have free: "HasDoorAtLocation room l = Inr False" by simp
  from AddDoor_effect [OF Cons.prems(1) free, of "rnd 0"] obtain r1
    where a: "AddDoor room l (rnd 0) = Inr r1"
      and p: "m_DoorMeshes r1 = m_DoorMeshes room"
      and same: "HasDoorAtLocation r1 l = Inr True"
      and other: "\<And>L. L \<noteq> l \<Longrightarrow> HasDoorAtLocation r1 L = HasDoorAtLocation room L"
    by blast
  have p': "m_DoorMeshes r1 \<noteq> []" using p Cons.prems(1) by simp
  have d: "distinct ls" and nl: "l \<notin> set ls" using Cons.prems(2) by simp_all
  have fr: "\<forall>L\<in>set ls. HasDoorAtLocation r1 L = Inr False"
  proof
    fix L assume L: "L \<in> set ls"
    with nl have "L \<noteq> l" by blast
    from other [OF this] Cons.prems(3) L show "HasDoorAtLocation r1 L = Inr False" by simp
  qed
  from Cons.IH [OF p' d fr, of "\<lambda>k. rnd (Suc k)"] obtain room'
    where r: "AddDoors r1 ls (\<lambda>k. rnd (Suc k)) = Inr room'"
      and t: "\<forall>L\<in>set ls. HasDoorAtLocation room' L = Inr True"
      and u: "\<forall>L. L \<notin> set ls \<longrightarrow> HasDoorAtLocation room' L = HasDoorAtLocation r1 L"
    by blast
  have "AddDoors room (l # ls) rnd = Inr room'" using a r by simp
  moreover have "\<forall>L\<in>set (l # ls). HasDoorAtLocation room' L = Inr True"
    using t u nl same by simp
  moreover have "\<forall>L. L \<notin> set (l # ls) \<longrightarrow> HasDoorAtLocation room' L = HasDoorAtLocation room L"
    using u other by simp
  ultimately show ?case by blast
qed

lemma SpawnActor_meshes:
  "SpawnActor World cls = Inr fresh \<Longrightarrow> m_DoorMeshes fresh \<noteq> [] \<and> m_WallMeshes fresh \<noteq> []"
  by (auto simp: SpawnActor_def Let_def PostActorCreated_def split: sum.splits if_splits)

lemma SpawnActor_class_4x3: "SpawnActor game_world class_4x3 = Inr room_4x3"
  by (simp add: example_defs spawn_defs)


text \<open>
  Claim C8. Let the class of a spawn request spawn to the room \<open>fresh\<close>, and let the
  door locations of the request be pairwise distinct and each be valid and without a
  door in \<open>fresh\<close>. Then \<^verbatim>\<open>Spawn\<close> returns a room: it is \<open>fresh\<close> after \<^verbatim>\<open>AddDoor\<close>
  at every listed location in turn, every one of these calls having succeeded, and
  \<^verbatim>\<open>HasDoorAtLocation\<close> answers true at each listed location of the room returned.
  This holds whatever the random generator draws.
\<close>

theorem Spawn_adds_doors:
  assumes "SpawnActor World (LoadedAsset SpawnInfo) = Inr fresh"
    and "distinct (DoorLocations SpawnInfo)"
    and "\<forall>L\<in>set (DoorLocations SpawnInfo).
           IsValidWallLocation fresh L \<and> HasDoorAtLocation fresh L = Inr False"
  shows "\<exists>room. Spawn SpawnInfo World rnd = Inr room \<and>
           AddDoors fresh (DoorLocations SpawnInfo) rnd = Inr room \<and>
           (\<forall>L\<in>set (DoorLocations SpawnInfo). HasDoorAtLocation room L = Inr True)"
proof -
  from SpawnActor_meshes [OF assms(1)] have "m_DoorMeshes fresh \<noteq> []" by simp
  moreover from assms(3)
  have "\<forall>L\<in>set (DoorLocations SpawnInfo). HasDoorAtLocation fresh L = Inr False" by blast
  ultimately show ?thesis
    using AddDoors_result [of fresh "DoorLocations SpawnInfo" rnd] assms(1,2)
    by (auto simp: Spawn_def)
qed

text \<open>
  The spawn request of the test, for the blueprint of the 4 by 3 room: a door on each
  wall.
\<close>

theorem Spawn_adds_doors_witness:
  "SpawnActor game_world (LoadedAsset spawn_info_4x3) = Inr room_4x3 \<and>
   distinct (DoorLocations spawn_info_4x3) \<and>
   DoorLocations spawn_info_4x3 =
     [WallLoc North 0, WallLoc South 1, WallLoc East 2, WallLoc West 2] \<and>
   (\<exists>room. Spawn spawn_info_4x3 game_world (\<lambda>k. k) = Inr room \<and>
      HasDoorAtLocation room (WallLoc North 0) = Inr True \<and>
      HasDoorAtLocation room (WallLoc South 1) = Inr True \<and>
      HasDoorAtLocation room (WallLoc East 2) = Inr True \<and>
      HasDoorAtLocation room (WallLoc West 2) = Inr True)"
proof -
  have l: "DoorLocations spawn_info_4x3 =
      [WallLoc North 0, WallLoc South 1, WallLoc East 2, WallLoc West 2]"
    by (simp add: spawn_info_4x3_def)
  have h1: "SpawnActor game_world (LoadedAsset spawn_info_4x3) = Inr room_4x3"
    using SpawnActor_class_4x3 by (simp add: spawn_info_4x3_def)
  have h2: "distinct (DoorLocations spawn_info_4x3)"
    by (simp add: l WallLoc_def)
  have h3: "\<forall>L\<in>set (DoorLocations spawn_info_4x3).
      IsValidWallLocation room_4x3 L \<and> HasDoorAtLocation room_4x3 L = Inr False"
    unfolding l by (simp add: example_defs room_defs)
  from Spawn_adds_doors [OF h1 h2 h3, of "\<lambda>k. k"] h1 h2 l show ?thesis
    by auto
qed

subsection \<open>Doors elsewhere are left alone\<close>

lemma WallLoc_eq [simp]: "WallLoc d i = WallLoc d' i' \<longleftrightarrow> d = d' \<and> i = i'"
  by (simp add: WallLoc_def)

lemma valid_4x3:
  assumes "FootprintInvariant room" "m_Width room = 4" "m_Length room = 3"
  shows "IsValidWallLocation room (WallLoc d i) \<longleftrightarrow>
           0 \<le> i \<and> i < (if d = North \<or> d = South then 4 else 3)"
  using assms
  by (cases d)
    (simp_all add: FootprintInvariant_def IsValidWallLocation_def IsValidSegmentIndex_def
      WallLoc_def)

lemma scenario_4x3:
  assumes fp: "FootprintInvariant room" "m_Width room = 4" "m_Length room = 3"
    and door: "m_DoorMeshes room \<noteq> []"
    and free: "\<forall>L. IsValidWallLocation room L \<longrightarrow> HasDoorAtLocation room L = Inr False"
  shows "\<exists>a b c d.
      AddDoor room (WallLoc North 0) r1 = Inr a \<and> AddDoor a (WallLoc South 2) r2 = Inr b \<and>
      AddDoor b (WallLoc East 1) r3 = Inr c \<and> AddDoor c (WallLoc West 0) r4 = Inr d \<and>
      HasDoorAtLocation d (WallLoc North 0) = Inr True \<and>
      HasDoorAtLocation d (WallLoc South 2) = Inr True \<and>
      HasDoorAtLocation d (WallLoc East 1) = Inr True \<and>
      HasDoorAtLocation d (WallLoc West 0) = Inr True \<and>
      HasDoorAtLocation d (WallLoc North 1) = Inr False \<and>
      HasDoorAtLocation d (WallLoc North 2) = Inr False \<and>
      HasDoorAtLocation d (WallLoc North 3) = Inr False \<and>
      HasDoorAtLocation d (WallLoc South 0) = Inr False \<and>
      HasDoorAtLocation d (WallLoc South 1) = Inr False \<and>
      HasDoorAtLocation d (WallLoc South 3) = Inr False \<and>
      HasDoorAtLocation d (WallLoc East 0) = Inr False \<and>
      HasDoorAtLocation d (WallLoc East 2) = Inr False \<and>
      HasDoorAtLocation d (WallLoc West 1) = Inr False \<and>
      HasDoorAtLocation d (WallLoc West 2) = Inr False"
proof -
  have f0: "HasDoorAtLocation room (WallLoc dir i) = Inr False"
    if "0 \<le> i" "i < (if dir = North \<or> dir = South then 4 else 3)" for dir i
    using free valid_4x3 [OF fp, of dir i] that by blast
  have fr: "HasDoorAtLocation room (WallLoc North 0) = Inr False"
    using f0 [where dir = North and i = 0] by simp
  from AddDoor_effect [OF door fr, of r1] obtain a
    where a: "AddDoor room (WallLoc North 0) r1 = Inr a" "m_DoorMeshes a = m_DoorMeshes room"
      "HasDoorAtLocation a (WallLoc North 0) = Inr True"
      "\<And>L2. L2 \<noteq> WallLoc North 0 \<Longrightarrow> HasDoorAtLocation a L2 = HasDoorAtLocation room L2"
    by auto
  have da: "m_DoorMeshes a \<noteq> []" using a(2) door by simp
  have fa: "HasDoorAtLocation a (WallLoc South 2) = Inr False"
    using a(4) [of "WallLoc South 2"] f0 [where dir = South and i = 2] by simp
  from AddDoor_effect [OF da fa, of r2] obtain b
    where b: "AddDoor a (WallLoc South 2) r2 = Inr b" "m_DoorMeshes b = m_DoorMeshes a"
      "HasDoorAtLocation b (WallLoc South 2) = Inr True"
      "\<And>L2. L2 \<noteq> WallLoc South 2 \<Longrightarrow> HasDoorAtLocation b L2 = HasDoorAtLocation a L2"
    by auto
  have db: "m_DoorMeshes b \<noteq> []" using b(2) da by simp
  have fb: "HasDoorAtLocation b (WallLoc East 1) = Inr False"
    using b(4) [of "WallLoc East 1"] a(4) [of "WallLoc East 1"] f0 [where dir = East and i = 1]
    by simp
  from AddDoor_effect [OF db fb, of r3] obtain c
    where c: "AddDoor b (WallLoc East 1) r3 = Inr c" "m_DoorMeshes c = m_DoorMeshes b"
      "HasDoorAtLocation c (WallLoc East 1) = Inr True"
      "\<And>L2. L2 \<noteq> WallLoc East 1 \<Longrightarrow> HasDoorAtLocation c L2 = HasDoorAtLocation b L2"
    by auto
  have dc: "m_DoorMeshes c \<noteq> []" using c(2) db by simp
  have fc: "HasDoorAtLocation c (WallLoc West 0) = Inr False"
    using c(4) [of "WallLoc West 0"] b(4) [of "WallLoc West 0"] a(4) [of "WallLoc West 0"]
      f0 [where dir = West and i = 0] by simp
  from AddDoor_effect [OF dc fc, of r4] obtain d
    where d: "AddDoor c (WallLoc West 0) r4 = Inr d"
      "HasDoorAtLocation d (WallLoc West 0) = Inr True"
      "\<And>L2. L2 \<noteq> WallLoc West 0 \<Longrightarrow> HasDoorAtLocation d L2 = HasDoorAtLocation c L2"
    by auto
  have other: "HasDoorAtLocation d (WallLoc dir i) = HasDoorAtLocation room (WallLoc dir i)"
    if "(dir, i) \<notin> {(North, 0), (South, 2), (East, 1), (West, 0)}" for dir i
    using that a(4) [of "WallLoc dir i"] b(4) [of "WallLoc dir i"] c(4) [of "WallLoc dir i"]
      d(3) [of "WallLoc dir i"] by simp
  have "HasDoorAtLocation d (WallLoc North 0) = Inr True"
    using d(3) [of "WallLoc North 0"] c(4) [of "WallLoc North 0"] b(4) [of "WallLoc North 0"] a(3)
    by simp
  moreover have "HasDoorAtLocation d (WallLoc South 2) = Inr True"
    using d(3) [of "WallLoc South 2"] c(4) [of "WallLoc South 2"] b(3) by simp
  moreover have "HasDoorAtLocation d (WallLoc East 1) = Inr True"
    using d(3) [of "WallLoc East 1"] c(3) by simp
  moreover note d(2)
  moreover have "HasDoorAtLocation d (WallLoc North 1) = Inr False"
    using other [where dir = North and i = 1] f0 [where dir = North and i = 1] by simp
  moreover have "HasDoorAtLocation d (WallLoc North 2) = Inr False"
    using other [where dir = North and i = 2] f0 [where dir = North and i = 2] by simp
  moreover have "HasDoorAtLocation d (WallLoc North 3) = Inr False"
    using other [where dir = North and i = 3] f0 [where dir = North and i = 3] by simp
  moreover have "HasDoorAtLocation d (WallLoc South 0) = Inr False"
    using other [where dir = South and i = 0] f0 [where dir = South and i = 0] by simp
  moreover have "HasDoorAtLocation d (WallLoc South 1) = Inr False"
    using other [where dir = South and i = 1] f0 [where dir = South and i = 1] by simp
  moreover have "HasDoorAtLocation d (WallLoc South 3) = Inr False"
    using other [where dir = South and i = 3] f0 [where dir = South and i = 3] by simp
  moreover have "HasDoorAtLocation d (WallLoc East 0) = Inr False"
    using other [where dir = East and i = 0] f0 [where dir = East and i = 0] by simp
  moreover have "HasDoorAtLocation d (WallLoc East 2) = Inr False"
    using other [where dir = East and i = 2] f0 [where dir = East and i = 2] by simp
  moreover have "HasDoorAtLocation d (WallLoc West 1) = Inr False"
    using other [where dir = West and i = 1] f0 [where dir = West and i = 1] by simp
  moreover have "HasDoorAtLocation d (WallLoc West 2) = Inr False"
    using other [where dir = West and i = 2] f0 [where dir = West and i = 2] by simp
  ultimately show ?thesis using a(1) b(1) c(1) d(1) by blast
qed

lemma room_4x3_free:
  "IsValidWallLocation room_4x3 L \<Longrightarrow> HasDoorAtLocation room_4x3 L = Inr False"
proof -
  assume v: "IsValidWallLocation room_4x3 L"
  have "set (m_SegmentMeshes (GetWall room_4x3 dir)) = {Some 3}" for dir
    by (cases dir) (simp_all add: room_4x3_def)
  moreover
  have "nat (SegmentIndex L) < length (m_SegmentMeshes (GetWall room_4x3 (WallDirection L)))"
    using v by (simp add: IsValidWallLocation_def IsValidSegmentIndex_def nat_less_iff)
  ultimately
  have "m_SegmentMeshes (GetWall room_4x3 (WallDirection L)) ! nat (SegmentIndex L) = Some 3"
    using nth_mem by blast
  with v show ?thesis
    by (simp add: HasDoorAtLocation_def GetSegment_def IsValidWallLocation_def room_4x3_def)
qed

text \<open>
  Claim C9 as the specification states it: after a 4 by 3 room is constructed and doors
  are added at north 0, south 2, east 1 and west 0, these four locations have a door and
  the remaining eight valid locations have none. A 4 by 3 room has fourteen valid
  locations, so that ten remain; and a room is constructed with the meshes of its
  blueprint: the 4 by 3 room spawned from the blueprint below has a door mesh at north
  1, the four doors are added to it, and north 1, which is none of the four, has a
  door.
\<close>

theorem four_doors_and_a_fifth:
  "SpawnActor game_world class_4x3_door = Inr room_4x3_door \<and>
   FootprintInvariant room_4x3_door \<and>
   m_Width room_4x3_door = 4 \<and> m_Length room_4x3_door = 3 \<and>
   AddDoors room_4x3_door
     [WallLoc North 0, WallLoc South 2, WallLoc East 1, WallLoc West 0] id =
     Inr room_4x3_door_four \<and>
   WallLoc North 1 \<notin> set [WallLoc North 0, WallLoc South 2, WallLoc East 1, WallLoc West 0] \<and>
   IsValidWallLocation room_4x3_door_four (WallLoc North 1) \<and>
   HasDoorAtLocation room_4x3_door_four (WallLoc North 1) = Inr True \<and>
   distinct
     [WallLoc North 0, WallLoc South 2, WallLoc East 1, WallLoc West 0,
      WallLoc North 1, WallLoc North 2, WallLoc North 3,
      WallLoc South 0, WallLoc South 1, WallLoc South 3,
      WallLoc East 0, WallLoc East 2, WallLoc West 1, WallLoc West 2] \<and>
   list_all (IsValidWallLocation room_4x3)
     [WallLoc North 0, WallLoc South 2, WallLoc East 1, WallLoc West 0,
      WallLoc North 1, WallLoc North 2, WallLoc North 3,
      WallLoc South 0, WallLoc South 1, WallLoc South 3,
      WallLoc East 0, WallLoc East 2, WallLoc West 1, WallLoc West 2]"
  by (simp add: example_defs spawn_defs room_defs FootprintInvariant_def)

text \<open>
  Claim C9, amended. A successful \<^verbatim>\<open>AddDoor\<close> or \<^verbatim>\<open>RemoveDoor\<close> at a location
  \<open>L\<close> leaves the answer of \<^verbatim>\<open>HasDoorAtLocation\<close> at every other location \<open>L2\<close> as
  it was (for a valid \<open>L2\<close> the door state, for an invalid one the failure). In
  particular, in a 4 by 3 room that has door meshes and no door at any valid location,
  after doors are added at north 0, south 2, east 1 and west 0, these four locations
  have a door and the remaining ten valid locations (three on the north wall, three on
  the south wall, two on the east wall, two on the west wall) have none. This holds
  whatever the random generator draws.
\<close>

theorem doors_elsewhere_unchanged:
  "(AddDoor room L raw = Inr room' \<and> L2 \<noteq> L \<longrightarrow>
      HasDoorAtLocation room' L2 = HasDoorAtLocation room L2) \<and>
   (RemoveDoor room L raw = Inr room' \<and> L2 \<noteq> L \<longrightarrow>
      HasDoorAtLocation room' L2 = HasDoorAtLocation room L2) \<and>
   (FootprintInvariant room0 \<and> m_Width room0 = 4 \<and> m_Length room0 = 3 \<and>
    m_DoorMeshes room0 \<noteq> [] \<and>
    (\<forall>loc. IsValidWallLocation room0 loc \<longrightarrow> HasDoorAtLocation room0 loc = Inr False) \<longrightarrow>
      (\<exists>a b c d.
         AddDoor room0 (WallLoc North 0) r1 = Inr a \<and> AddDoor a (WallLoc South 2) r2 = Inr b \<and>
         AddDoor b (WallLoc East 1) r3 = Inr c \<and> AddDoor c (WallLoc West 0) r4 = Inr d \<and>
         HasDoorAtLocation d (WallLoc North 0) = Inr True \<and>
         HasDoorAtLocation d (WallLoc South 2) = Inr True \<and>
         HasDoorAtLocation d (WallLoc East 1) = Inr True \<and>
         HasDoorAtLocation d (WallLoc West 0) = Inr True \<and>
         HasDoorAtLocation d (WallLoc North 1) = Inr False \<and>
         HasDoorAtLocation d (WallLoc North 2) = Inr False \<and>
         HasDoorAtLocation d (WallLoc North 3) = Inr False \<and>
         HasDoorAtLocation d (WallLoc South 0) = Inr False \<and>
         HasDoorAtLocation d (WallLoc South 1) = Inr False \<and>
         HasDoorAtLocation d (WallLoc South 3) = Inr False \<and>
         HasDoorAtLocation d (WallLoc East 0) = Inr False \<and>
         HasDoorAtLocation d (WallLoc East 2) = Inr False \<and>
         HasDoorAtLocation d (WallLoc West 1) = Inr False \<and>
         HasDoorAtLocation d (WallLoc West 2) = Inr False))"
proof (intro conjI impI)
  show "HasDoorAtLocation room' L2 = HasDoorAtLocation room L2"
    if "AddDoor room L raw = Inr room' \<and> L2 \<noteq> L"
    using that by (blast dest: AddDoor_Inr_D SetStaticMesh_other)
  show "HasDoorAtLocation room' L2 = HasDoorAtLocation room L2"
    if "RemoveDoor room L raw = Inr room' \<and> L2 \<noteq> L"
    using that by (blast dest: RemoveDoor_Inr_D SetStaticMesh_other)
next
  assume "FootprintInvariant room0 \<and> m_Width room0 = 4 \<and> m_Length room0 = 3 \<and>
    m_DoorMeshes room0 \<noteq> [] \<and>
    (\<forall>loc. IsValidWallLocation room0 loc \<longrightarrow> HasDoorAtLocation room0 loc = Inr False)"
  then show "\<exists>a b c d.
         AddDoor room0 (WallLoc North 0) r1 = Inr a \<and> AddDoor a (WallLoc South 2) r2 = Inr b \<and>
         AddDoor b (WallLoc East 1) r3 = Inr c \<and> AddDoor c (WallLoc West 0) r4 = Inr d \<and>
         HasDoorAtLocation d (WallLoc North 0) = Inr True \<and>
         HasDoorAtLocation d (WallLoc South 2) = Inr True \<and>
         HasDoorAtLocation d (WallLoc East 1) = Inr True \<and>
         HasDoorAtLocation d (WallLoc West 0) = Inr True \<and>
         HasDoorAtLocation d (WallLoc North 1) = Inr False \<and>
         HasDoorAtLocation d (WallLoc North 2) = Inr False \<and>
         HasDoorAtLocation d (WallLoc North 3) = Inr False \<and>
         HasDoorAtLocation d (WallLoc South 0) = Inr False \<and>
         HasDoorAtLocation d (WallLoc South 1) = Inr False \<and>
         HasDoorAtLocation d (WallLoc South 3) = Inr False \<and>
         HasDoorAtLocation d (WallLoc East 0) = Inr False \<and>
         HasDoorAtLocation d (WallLoc East 2) = Inr False \<and>
         HasDoorAtLocation d (WallLoc West 1) = Inr False \<and>
         HasDoorAtLocation d (WallLoc West 2) = Inr False"
    using scenario_4x3 [of room0 r1 r2 r3 r4] by blast
qed

text \<open>
  In the 4 by 3 room spawned from its blueprint: a door added at north 0 leaves south 2
  without a door; in the room with a door at north 1, removing it leaves north 0 without
  one; and the four doors of the scenario.
\<close>

theorem doors_elsewhere_unchanged_witness:
  "(\<exists>room'. AddDoor room_4x3 (WallLoc North 0) 0 = Inr room' \<and>
      HasDoorAtLocation room' (WallLoc South 2) = Inr False) \<and>
   (\<exists>room'. RemoveDoor room_with_door (WallLoc North 1) 0 = Inr room' \<and>
      HasDoorAtLocation room' (WallLoc North 0) = Inr False) \<and>
   SpawnActor game_world class_4x3 = Inr room_4x3 \<and>
   FootprintInvariant room_4x3 \<and> m_Width room_4x3 = 4 \<and> m_Length room_4x3 = 3 \<and>
   (\<exists>a b c d.
      AddDoor room_4x3 (WallLoc North 0) 0 = Inr a \<and> AddDoor a (WallLoc South 2) 1 = Inr b \<and>
      AddDoor b (WallLoc East 1) 2 = Inr c \<and> AddDoor c (WallLoc West 0) 3 = Inr d \<and>
      HasDoorAtLocation d (WallLoc North 0) = Inr True \<and>
      HasDoorAtLocation d (WallLoc South 2) = Inr True \<and>
      HasDoorAtLocation d (WallLoc East 1) = Inr True \<and>
      HasDoorAtLocation d (WallLoc West 0) = Inr True \<and>
      HasDoorAtLocation d (WallLoc North 1) = Inr False \<and>
      HasDoorAtLocation d (WallLoc North 2) = Inr False \<and>
      HasDoorAtLocation d (WallLoc North 3) = Inr False \<and>
      HasDoorAtLocation d (WallLoc South 0) = Inr False \<and>
      HasDoorAtLocation d (WallLoc South 1) = Inr False \<and>
      HasDoorAtLocation d (WallLoc South 3) = Inr False \<and>
      HasDoorAtLocation d (WallLoc East 0) = Inr False \<and>
      HasDoorAtLocation d (WallLoc East 2) = Inr False \<and>
      HasDoorAtLocation d (WallLoc West 1) = Inr False \<and>
      HasDoorAtLocation d (WallLoc West 2) = Inr False)"
proof -
  have fp: "FootprintInvariant room_4x3" "m_Width room_4x3 = 4" "m_Length room_4x3 = 3"
    "m_DoorMeshes room_4x3 \<noteq> []"
    by (simp_all add: FootprintInvariant_def room_4x3_def)
  have free: "\<forall>loc. IsValidWallLocation room_4x3 loc \<longrightarrow> HasDoorAtLocation room_4x3 loc = Inr False"
    using room_4x3_free by blast
  have a: "AddDoor room_4x3 (WallLoc North 0) 0 =
      Inr (room_4x3\<lparr>m_NorthWall := \<lparr>m_SegmentMeshes = [Some 1, Some 3, Some 3, Some 3]\<rparr>\<rparr>)"
    and r: "RemoveDoor room_with_door (WallLoc North 1) 0 =
      Inr (room_with_door\<lparr>m_NorthWall := \<lparr>m_SegmentMeshes = [Some 3, Some 3]\<rparr>\<rparr>)"
    by (simp_all add: example_defs room_defs)
  have ne: "WallLoc South 2 \<noteq> WallLoc North 0" "WallLoc North 0 \<noteq> WallLoc North 1"
    by simp_all
  have before: "HasDoorAtLocation room_4x3 (WallLoc South 2) = Inr False"
    "HasDoorAtLocation room_with_door (WallLoc North 0) = Inr False"
    by (simp_all add: example_defs room_defs)
  note frame1 = doors_elsewhere_unchanged [THEN conjunct1, rule_format, OF conjI, OF a ne(1)]
  note frame2 = doors_elsewhere_unchanged
    [THEN conjunct2, THEN conjunct1, rule_format, OF conjI, OF r ne(2)]
  note four = doors_elsewhere_unchanged
    [THEN conjunct2, THEN conjunct2, rule_format, of room_4x3 0 1 2 3]
  from frame1 before a
  have "\<exists>room'. AddDoor room_4x3 (WallLoc North 0) 0 = Inr room' \<and>
      HasDoorAtLocation room' (WallLoc South 2) = Inr False" by simp
  moreover from frame2 before r
  have "\<exists>room'. RemoveDoor room_with_door (WallLoc North 1) 0 = Inr room' \<and>
      HasDoorAtLocation room' (WallLoc North 0) = Inr False" by simp
  moreover from four fp free
  have "\<exists>a b c d.
      AddDoor room_4x3 (WallLoc North 0) 0 = Inr a \<and> AddDoor a (WallLoc South 2) 1 = Inr b \<and>
      AddDoor b (WallLoc East 1) 2 = Inr c \<and> AddDoor c (WallLoc West 0) 3 = Inr d \<and>
      HasDoorAtLocation d (WallLoc North 0) = Inr True \<and>
      HasDoorAtLocation d (WallLoc South 2) = Inr True \<and>
      HasDoorAtLocation d (WallLoc East 1) = Inr True \<and>
      HasDoorAtLocation d (WallLoc West 0) = Inr True \<and>
      HasDoorAtLocation d (WallLoc North 1) = Inr False \<and>
      HasDoorAtLocation d (WallLoc North 2) = Inr False \<and>
      HasDoorAtLocation d (WallLoc North 3) = Inr False \<and>
      HasDoorAtLocation d (WallLoc South 0) = Inr False \<and>
      HasDoorAtLocation d (WallLoc South 1) = Inr False \<and>
      HasDoorAtLocation d (WallLoc South 3) = Inr False \<and>
      HasDoorAtLocation d (WallLoc East 0) = Inr False \<and>
      HasDoorAtLocation d (WallLoc East 2) = Inr False \<and>
      HasDoorAtLocation d (WallLoc West 1) = Inr False \<and>
      HasDoorAtLocation d (WallLoc West 2) = Inr False" by blast
  ultimately show ?thesis using fp SpawnActor_class_4x3 by blast
qed

subsection \<open>The segments of a spawned room\<close>



text \<open>Every mesh of the filled array is the mesh of an attached component.\<close>

lemma AssignSegments_source:
  "AssignSegments cs segs = Inr segs' \<Longrightarrow> i < length segs \<Longrightarrow> segs' ! i = Some m \<Longrightarrow>
   segs ! i = Some m \<or> (\<exists>c\<in>set cs. StaticMesh c = m)"
proof (induction cs arbitrary: segs)
  case Nil
  then show ?case by simp
next
  case (Cons c cs)
  from Cons.prems(1) obtain k where k: "GetIndexOfSegment c = Inr k" "0 \<le> k"
    "k < int (length segs)"
    and rest: "AssignSegments cs (segs[nat k := Some (StaticMesh c)]) = Inr segs'"
    by (auto split: if_splits sum.splits)
  from Cons.IH [OF rest _ Cons.prems(3)] Cons.prems(2)
  have "(segs[nat k := Some (StaticMesh c)]) ! i = Some m \<or> (\<exists>c\<in>set cs. StaticMesh c = m)"
    by simp
  then show ?case
    using Cons.prems(2) by (cases "i = nat k") auto
qed

















section \<open>Properties of the database\<close>

lemmas catalog_defs = example_catalog_def RoomAsset_def RoomSpecs_def Crypt_def Hall_def
  AssetWidth_def AssetLength_def AssetsOfTheme_def AssetsWithSpecs_def

subsection \<open>One asset\<close>

lemma Paths_AddAssetToDatabase:
  "m_PathsByRoomSpecs (AddAssetToDatabase db Asset) =
     (m_PathsByRoomSpecs db)
       (GetRoomSpecs Asset \<mapsto>
          (case m_PathsByRoomSpecs db (GetRoomSpecs Asset) of None \<Rightarrow> [] | Some ps \<Rightarrow> ps)
            @ [GetSoftObjectPath Asset])"
  by (simp add: AddAssetToDatabase_def UpdateMaxWidthAndLengthMaps_def UpdateAssetPathsMap_def
      FindOrAdd_def Let_def split: option.splits prod.splits)

lemma MaxWidth_AddAssetToDatabase:
  "m_MaxWidthByTheme (AddAssetToDatabase db Asset) =
     (m_MaxWidthByTheme db)
       (Theme (GetRoomSpecs Asset) \<mapsto>
          max (case m_MaxWidthByTheme db (Theme (GetRoomSpecs Asset)) of None \<Rightarrow> 0 | Some v \<Rightarrow> v)
            (AssetWidth Asset))"
  by (auto simp: AddAssetToDatabase_def UpdateMaxWidthAndLengthMaps_def UpdateAssetPathsMap_def
      FindOrAdd_def Let_def AssetWidth_def max_def fun_upd_idem
      split: option.splits prod.splits)

lemma MaxLength_AddAssetToDatabase:
  "m_MaxLengthByTheme (AddAssetToDatabase db Asset) =
     (m_MaxLengthByTheme db)
       (Theme (GetRoomSpecs Asset) \<mapsto>
          max (case m_MaxLengthByTheme db (Theme (GetRoomSpecs Asset)) of None \<Rightarrow> 0 | Some v \<Rightarrow> v)
            (AssetLength Asset))"
  by (auto simp: AddAssetToDatabase_def UpdateMaxWidthAndLengthMaps_def UpdateAssetPathsMap_def
      FindOrAdd_def Let_def AssetLength_def max_def fun_upd_idem
      split: option.splits prod.splits)

subsection \<open>The whole catalog\<close>

lemma built_snoc: "built (xs @ [x]) = AddAssetToDatabase (built xs) x"
  by (simp add: built_def)

lemma ctor_built:
  "FDungeonRoomDatabase_ctor RoomAssets = Inr db \<longleftrightarrow> RoomAssets \<noteq> [] \<and> db = built RoomAssets"
  by (auto simp: FDungeonRoomDatabase_ctor_def InitializeDatabase_def built_def)

lemma Paths_built:
  "m_PathsByRoomSpecs (built xs) Specs =
     (if AssetsWithSpecs xs Specs = [] then None
      else Some (map GetSoftObjectPath (AssetsWithSpecs xs Specs)))"
proof (induction xs rule: rev_induct)
  case Nil
  show ?case by (simp add: built_def AssetsWithSpecs_def)
next
  case (snoc x xs)
  show ?case
  proof (cases "GetRoomSpecs x = Specs")
    case True
    with snoc show ?thesis
      by (simp add: built_snoc Paths_AddAssetToDatabase AssetsWithSpecs_def)
  next
    case False
    with snoc show ?thesis
      by (simp add: built_snoc Paths_AddAssetToDatabase AssetsWithSpecs_def)
  qed
qed

text \<open>
  The running maximum starts from a default-constructed \<^verbatim>\<open>FNumberOfTiles\<close>: what is
  stored for a theme is the larger of 0 and the sizes of its assets.
\<close>

lemma MaxWidth_built:
  "m_MaxWidthByTheme (built xs) theme =
     (if AssetsOfTheme xs theme = [] then None
      else Some (max 0 (Max (AssetWidth ` set (AssetsOfTheme xs theme)))))"
proof (induction xs rule: rev_induct)
  case Nil
  show ?case by (simp add: built_def AssetsOfTheme_def)
next
  case (snoc x xs)
  show ?case
  proof (cases "Theme (GetRoomSpecs x) = theme")
    case False
    with snoc show ?thesis
      by (simp add: built_snoc MaxWidth_AddAssetToDatabase AssetsOfTheme_def)
  next
    case True
    show ?thesis
    proof (cases "AssetsOfTheme xs theme = []")
      case True
      with snoc \<open>Theme (GetRoomSpecs x) = theme\<close> show ?thesis
        by (simp add: built_snoc MaxWidth_AddAssetToDatabase AssetsOfTheme_def)
    next
      case False
      then have "AssetWidth ` set (AssetsOfTheme xs theme) \<noteq> {}" by simp
      with snoc False \<open>Theme (GetRoomSpecs x) = theme\<close> show ?thesis
        by (simp add: built_snoc MaxWidth_AddAssetToDatabase AssetsOfTheme_def max.assoc
            max.commute max.left_commute)
    qed
  qed
qed

lemma MaxLength_built:
  "m_MaxLengthByTheme (built xs) theme =
     (if AssetsOfTheme xs theme = [] then None
      else Some (max 0 (Max (AssetLength ` set (AssetsOfTheme xs theme)))))"
proof (induction xs rule: rev_induct)
  case Nil
  show ?case by (simp add: built_def AssetsOfTheme_def)
next
  case (snoc x xs)
  show ?case
  proof (cases "Theme (GetRoomSpecs x) = theme")
    case False
    with snoc show ?thesis
      by (simp add: built_snoc MaxLength_AddAssetToDatabase AssetsOfTheme_def)
  next
    case True
    show ?thesis
    proof (cases "AssetsOfTheme xs theme = []")
      case True
      with snoc \<open>Theme (GetRoomSpecs x) = theme\<close> show ?thesis
        by (simp add: built_snoc MaxLength_AddAssetToDatabase AssetsOfTheme_def)
    next
      case False
      then have "AssetLength ` set (AssetsOfTheme xs theme) \<noteq> {}" by simp
      with snoc False \<open>Theme (GetRoomSpecs x) = theme\<close> show ?thesis
        by (simp add: built_snoc MaxLength_AddAssetToDatabase AssetsOfTheme_def max.assoc
            max.commute max.left_commute)
    qed
  qed
qed

lemma Max_nonneg:
  assumes "finite A" "A \<noteq> {}" "\<forall>x\<in>A. (0::int) \<le> x"
  shows "max 0 (Max A) = Max A"
proof -
  from assms(1,2) have "Max A \<in> A" by (rule Max_in)
  with assms(3) show ?thesis by (simp add: max_def)
qed

lemma ctor_example_catalog: "FDungeonRoomDatabase_ctor example_catalog = Inr (built example_catalog)"
  by (simp add: ctor_built example_catalog_def)

section \<open>Claims about the database\<close>

text \<open>
  Claim C5. Let the database be built from a non-empty catalog whose assets have
  non-negative widths and lengths (sizes are tile counts). For a theme without assets
  \<^verbatim>\<open>GetMaxWidth\<close> and \<^verbatim>\<open>GetMaxLength\<close> fail with \<open>ThemeNotFound\<close>. For a theme
  with assets \<^verbatim>\<open>GetMaxWidth\<close> is the maximum of the widths of the assets of the
  theme, and \<^verbatim>\<open>GetMaxLength\<close> the maximum of their lengths, each on its own: the
  two maxima may come from different assets.
\<close>

theorem max_size_of_theme:
  assumes "FDungeonRoomDatabase_ctor RoomAssets = Inr db"
    and "\<forall>Asset\<in>set RoomAssets. 0 \<le> AssetWidth Asset \<and> 0 \<le> AssetLength Asset"
  shows "if AssetsOfTheme RoomAssets theme = []
         then GetMaxWidth db theme = Inl ThemeNotFound \<and>
              GetMaxLength db theme = Inl ThemeNotFound
         else GetMaxWidth db theme =
                Inr (Max (AssetWidth ` set (AssetsOfTheme RoomAssets theme))) \<and>
              GetMaxLength db theme =
                Inr (Max (AssetLength ` set (AssetsOfTheme RoomAssets theme)))"
proof (cases "AssetsOfTheme RoomAssets theme = []")
  case True
  with assms(1) show ?thesis
    by (simp add: ctor_built GetMaxWidth_def GetMaxLength_def FindChecked_def
        MaxWidth_built MaxLength_built)
next
  case False
  let ?A = "set (AssetsOfTheme RoomAssets theme)"
  from False have ne: "?A \<noteq> {}" by simp
  have sub: "?A \<subseteq> set RoomAssets" by (auto simp: AssetsOfTheme_def)
  with assms(2) have "\<forall>x\<in>AssetWidth ` ?A. 0 \<le> x" "\<forall>x\<in>AssetLength ` ?A. 0 \<le> x"
    by auto
  with ne have "max 0 (Max (AssetWidth ` ?A)) = Max (AssetWidth ` ?A)"
    and "max 0 (Max (AssetLength ` ?A)) = Max (AssetLength ` ?A)"
    by (simp_all add: Max_nonneg)
  with False assms(1) show ?thesis
    by (simp add: ctor_built GetMaxWidth_def GetMaxLength_def FindChecked_def
        MaxWidth_built MaxLength_built)
qed

text \<open>
  In the example catalog the first theme has the maximal width 6 (asset \<open>b\<close>, 6 by 4)
  and the maximal length 7 (assets \<open>a\<close> and \<open>d\<close>, 4 by 7); the theme 2 has no asset.
\<close>

theorem max_size_of_theme_witness:
  "FDungeonRoomDatabase_ctor example_catalog = Inr (built example_catalog) \<and>
   GetMaxWidth (built example_catalog) Crypt = Inr 6 \<and>
   GetMaxLength (built example_catalog) Crypt = Inr 7 \<and>
   GetMaxWidth (built example_catalog) Hall = Inr 4 \<and>
   GetMaxLength (built example_catalog) Hall = Inr 4 \<and>
   GetMaxWidth (built example_catalog) 2 = Inl ThemeNotFound \<and>
   GetMaxLength (built example_catalog) 2 = Inl ThemeNotFound"
proof -
  have pos: "\<forall>Asset\<in>set example_catalog. 0 \<le> AssetWidth Asset \<and> 0 \<le> AssetLength Asset"
    by (simp add: catalog_defs)
  note m = max_size_of_theme [OF ctor_example_catalog pos]
  from m [of Crypt] have "GetMaxWidth (built example_catalog) Crypt = Inr 6"
    and "GetMaxLength (built example_catalog) Crypt = Inr 7"
    by (simp_all add: catalog_defs)
  moreover from m [of Hall] have "GetMaxWidth (built example_catalog) Hall = Inr 4"
    and "GetMaxLength (built example_catalog) Hall = Inr 4"
    by (simp_all add: catalog_defs)
  moreover from m [of 2] have "GetMaxWidth (built example_catalog) 2 = Inl ThemeNotFound"
    and "GetMaxLength (built example_catalog) 2 = Inl ThemeNotFound"
    by (simp_all add: catalog_defs)
  ultimately show ?thesis using ctor_example_catalog by simp
qed

text \<open>
  Claim C6. For a database built from a catalog, \<^verbatim>\<open>DoesAssetExistWithSpecs\<close> fails
  with \<open>InvalidSpecification\<close> exactly when the width or the length of the queried
  specs is not positive; otherwise it returns whether some asset of the catalog has
  exactly these specs (theme, width and length).
\<close>

theorem exists_with_specs:
  assumes "FDungeonRoomDatabase_ctor RoomAssets = Inr db"
  shows "DoesAssetExistWithSpecs db Specs =
           (if Width (Dimensions Specs) \<le> 0 \<or> Length (Dimensions Specs) \<le> 0
            then Inl InvalidSpecification
            else Inr (\<exists>Asset\<in>set RoomAssets.
                   Theme (GetRoomSpecs Asset) = Theme Specs \<and>
                   AssetWidth Asset = Width (Dimensions Specs) \<and>
                   AssetLength Asset = Length (Dimensions Specs)))"
proof -
  have eq: "GetRoomSpecs Asset = Specs \<longleftrightarrow>
      Theme (GetRoomSpecs Asset) = Theme Specs \<and>
      AssetWidth Asset = Width (Dimensions Specs) \<and>
      AssetLength Asset = Length (Dimensions Specs)" for Asset
    by (auto simp: AssetWidth_def AssetLength_def
        intro: FDungeonRoomSpecs.equality FRoomDimensions.equality)
  have ex: "(\<exists>Asset\<in>set RoomAssets.
        Theme (GetRoomSpecs Asset) = Theme Specs \<and>
        AssetWidth Asset = Width (Dimensions Specs) \<and>
        AssetLength Asset = Length (Dimensions Specs)) \<longleftrightarrow>
      AssetsWithSpecs RoomAssets Specs \<noteq> []"
    unfolding eq [symmetric] by (auto simp: AssetsWithSpecs_def filter_empty_conv)
  show ?thesis
    unfolding ex using assms
    by (simp add: ctor_built DoesAssetExistWithSpecs_def Paths_built not_less)
qed

theorem exists_with_specs_witness:
  "FDungeonRoomDatabase_ctor example_catalog = Inr (built example_catalog) \<and>
   DoesAssetExistWithSpecs (built example_catalog) (RoomSpecs Crypt 4 7) = Inr True \<and>
   DoesAssetExistWithSpecs (built example_catalog) (RoomSpecs Crypt 6 7) = Inr False \<and>
   DoesAssetExistWithSpecs (built example_catalog) (RoomSpecs Hall 4 7) = Inr False \<and>
   DoesAssetExistWithSpecs (built example_catalog) (RoomSpecs Crypt 0 7) =
     Inl InvalidSpecification \<and>
   DoesAssetExistWithSpecs (built example_catalog) (RoomSpecs Crypt 4 (- 1)) =
     Inl InvalidSpecification"
  using ctor_example_catalog
    exists_with_specs [OF ctor_example_catalog, of "RoomSpecs Crypt 4 7"]
    exists_with_specs [OF ctor_example_catalog, of "RoomSpecs Crypt 6 7"]
    exists_with_specs [OF ctor_example_catalog, of "RoomSpecs Hall 4 7"]
    exists_with_specs [OF ctor_example_catalog, of "RoomSpecs Crypt 0 7"]
    exists_with_specs [OF ctor_example_catalog, of "RoomSpecs Crypt 4 (- 1)"]
  by (simp add: catalog_defs)

text \<open>
  Claim C7. For a database built from a catalog, \<^verbatim>\<open>GetAssetPaths\<close> fails with
  \<open>SpecificationNotFound\<close> when no asset of the catalog has the queried specs;
  otherwise it returns the paths of exactly the assets with these specs, in the order
  of the catalog. A returned array is never empty.
\<close>

theorem paths_of_specs:
  assumes "FDungeonRoomDatabase_ctor RoomAssets = Inr db"
  shows "GetAssetPaths db Specs =
           (if AssetsWithSpecs RoomAssets Specs = [] then Inl SpecificationNotFound
            else Inr (map GetSoftObjectPath (AssetsWithSpecs RoomAssets Specs))) \<and>
         GetAssetPaths db Specs \<noteq> Inr []"
  using assms
  by (simp add: ctor_built GetAssetPaths_def FindChecked_def Paths_built)

theorem paths_of_specs_witness:
  "FDungeonRoomDatabase_ctor example_catalog = Inr (built example_catalog) \<and>
   GetAssetPaths (built example_catalog) (RoomSpecs Crypt 4 7) = Inr [''a'', ''d''] \<and>
   GetAssetPaths (built example_catalog) (RoomSpecs Hall 4 4) = Inr [''c''] \<and>
   GetAssetPaths (built example_catalog) (RoomSpecs Crypt 5 4) = Inl SpecificationNotFound"
  using ctor_example_catalog
    paths_of_specs [OF ctor_example_catalog, of "RoomSpecs Crypt 4 7"]
    paths_of_specs [OF ctor_example_catalog, of "RoomSpecs Hall 4 4"]
    paths_of_specs [OF ctor_example_catalog, of "RoomSpecs Crypt 5 4"]
  by (simp add: catalog_defs)

end
